theory Spec2Isabelle
  imports Complex_Main
begin

section \<open>Data model of \<^verbatim>\<open>Anchor/anchor.py\<close>\<close>

text \<open>
  \<^verbatim>\<open>class Tasktype(Enum)\<close>: the three kinds of data an anchor can explain.
\<close>

datatype Tasktype = TABULAR | IMAGE | TEXT

text \<open>
  Exceptions are values. \<open>ValueError\<close> carries its message. \<open>InvalidInputError\<close> is the
  name the specification uses; the source defines no such class. \<open>Raised\<close> stands for
  any other exception an external function may raise.
\<close>

datatype exn =
    ValueError string
  | TypeError
  | AssertionError
  | IndexError
  | RuntimeError
  | FrozenInstanceError
  | InvalidInputError
  | Raised string

text \<open>
  A torch tensor: its shape and the element at every index (one coordinate per
  dimension). Elements at indices outside the shape carry no meaning.
\<close>

record 'a tensor =
  shape :: "nat list"
  elem :: "nat list \<Rightarrow> 'a"

text \<open>
  Everything the code reads or changes besides its arguments:
  the store of the tensors that are written in place somewhere in the code (images,
  addressed by reference, so that \<^verbatim>\<open>clone()\<close> and aliasing are visible), the next
  free reference, the log of the batches handed to the external predict function, and
  the stream of raw draws of torch's global random generator.
\<close>

record 'v world =
  tensors :: "nat \<Rightarrow> 'v tensor"
  fresh :: nat
  calls :: "'v tensor list"
  rng :: "nat \<Rightarrow> nat"

text \<open>
  The predict function: a batch to a per-class score matrix (one row per sample), or
  an exception. Scores are taken from a linear order (floating-point NaN is outside
  the model).
\<close>

type_synonym ('v, 's) predict = "'v tensor \<Rightarrow> exn + 's list list"

text \<open>
  The attributes that \<^verbatim>\<open>ImageSampler.__init__\<close> sets on \<^verbatim>\<open>self\<close>. The two image
  tensors are references into the store; \<^verbatim>\<open>segments\<close> is never written after its
  creation and is held by value; \<^verbatim>\<open>label\<close> is the class index.
\<close>

record ('v, 's) ImageSampler =
  label :: nat
  segments :: "int tensor"
  n_features :: nat
  sp_image :: nat
  image_ref :: nat
  predict_fn :: "('v, 's) predict"

text \<open>
  An instance of one of the three subclasses of \<^verbatim>\<open>Sampler\<close>. \<^verbatim>\<open>TabularSampler\<close> and
  \<^verbatim>\<open>TextSampler\<close> define no attributes.
\<close>

datatype ('v, 's) Sampler =
    TabularSampler
  | ImageSamplerObj "('v, 's) ImageSampler"
  | TextSampler

text \<open>
  A class as the registry sees it: its \<^verbatim>\<open>type\<close> attribute and what calling it with
  \<^verbatim>\<open>(input, predict_fn, **kwargs)\<close> does. Keyword arguments are a list of named values.
\<close>

record ('v, 's, 'k) pyclass =
  cls_type :: Tasktype
  construct :: "nat \<Rightarrow> ('v, 's) predict \<Rightarrow> (string \<times> 'k) list \<Rightarrow> 'v world
                  \<Rightarrow> 'v world \<times> (exn + ('v, 's) Sampler)"

text \<open>
  The external libraries: skimage's \<^verbatim>\<open>quickshift\<close> with the fixed parameters of the
  call (\<^verbatim>\<open>kernel_size=4, max_dist=200, ratio=0.2\<close>) and \<^verbatim>\<open>torch.mean\<close> of a list of
  values. Both are parameters of the model. Element types (dtypes) and floating-point
  rounding are outside the model: \<^verbatim>\<open>input.double()\<close> is the identity here.
\<close>

record 'v ext =
  quickshift :: "'v tensor \<Rightarrow> int tensor"
  mean :: "'v list \<Rightarrow> 'v"

section \<open>The factory\<close>

text \<open>
  \<^verbatim>\<open>Sampler.__init_subclass__\<close>: \<^verbatim>\<open>cls.subclasses[cls.type] = cls\<close>.
\<close>

definition init_subclass ::
  "(Tasktype \<rightharpoonup> ('v, 's, 'k) pyclass) \<Rightarrow> ('v, 's, 'k) pyclass \<Rightarrow> (Tasktype \<rightharpoonup> ('v, 's, 'k) pyclass)" where
  "init_subclass subclasses cls = subclasses(cls_type cls \<mapsto> cls)"

fun Tasktype_str :: "Tasktype \<Rightarrow> string" where
  "Tasktype_str TABULAR = ''Tasktype.TABULAR''"
| "Tasktype_str IMAGE = ''Tasktype.IMAGE''"
| "Tasktype_str TEXT = ''Tasktype.TEXT''"

text \<open>
  \<^verbatim>\<open>Sampler.create\<close> of \<^verbatim>\<open>Anchor/anchor.py\<close>: the registered class is called with
  \<^verbatim>\<open>(input, predict_fn, **kwargs)\<close>.
\<close>

definition Sampler_create ::
  "(Tasktype \<rightharpoonup> ('v, 's, 'k) pyclass) \<Rightarrow> Tasktype \<Rightarrow> nat \<Rightarrow> ('v, 's) predict
     \<Rightarrow> (string \<times> 'k) list \<Rightarrow> 'v world \<Rightarrow> 'v world \<times> (exn + ('v, 's) Sampler)" where
  "Sampler_create subclasses type input predict kwargs w =
     (case subclasses type of
        None \<Rightarrow> (w, Inl (ValueError (''Bad message type '' @ Tasktype_str type)))
      | Some cls \<Rightarrow> construct cls input predict kwargs w)"

text \<open>
  \<^verbatim>\<open>Sampler.create\<close> of \<^verbatim>\<open>ianchor/samplers/__init__.py\<close>: it takes the dictionary
  \<^verbatim>\<open>task_specific\<close> as well, calls the registered class with
  \<^verbatim>\<open>(input, predict_fn, **task_specific)\<close> and does not use its own \<^verbatim>\<open>**kwargs\<close>.
\<close>

definition Sampler_create_ianchor ::
  "(Tasktype \<rightharpoonup> ('v, 's, 'k) pyclass) \<Rightarrow> Tasktype \<Rightarrow> nat \<Rightarrow> ('v, 's) predict
     \<Rightarrow> (string \<times> 'k) list \<Rightarrow> (string \<times> 'k) list \<Rightarrow> 'v world
     \<Rightarrow> 'v world \<times> (exn + ('v, 's) Sampler)" where
  "Sampler_create_ianchor subclasses type input predict task_specific kwargs w =
     (case subclasses type of
        None \<Rightarrow> (w, Inl (ValueError (''Bad message type '' @ Tasktype_str type)))
      | Some cls \<Rightarrow> construct cls input predict task_specific w)"

section \<open>Tensor operations used by the image sampler\<close>

text \<open>All indices of a tensor of the given shape, in row-major order.\<close>

fun indices :: "nat list \<Rightarrow> nat list list" where
  "indices [] = [[]]"
| "indices (n # ns) = concat (map (\<lambda>i. map ((#) i) (indices ns)) [0..<n])"

text \<open>\<^verbatim>\<open>torch.unique\<close>: the distinct elements of a tensor, sorted.\<close>

definition unique :: "int tensor \<Rightarrow> int list" where
  "unique t = remdups (sort (map (elem t) (indices (shape t))))"

text \<open>
  \<^verbatim>\<open>t.permute(dims)\<close>: dimension \<open>j\<close> of the result is dimension \<open>dims ! j\<close> of \<open>t\<close>.
  torch raises RuntimeError unless \<open>dims\<close> names every dimension of \<open>t\<close> once.
\<close>

definition position :: "nat \<Rightarrow> nat list \<Rightarrow> nat" where
  "position d dims = length (takeWhile (\<lambda>x. x \<noteq> d) dims)"

definition permute :: "nat list \<Rightarrow> 'a tensor \<Rightarrow> exn + 'a tensor" where
  "permute dims t =
     (if sort dims \<noteq> [0..<length (shape t)] then Inl RuntimeError
      else Inr \<lparr>shape = map (\<lambda>d. shape t ! d) dims,
                elem = (\<lambda>i. elem t (map (\<lambda>d. i ! position d dims) [0..<length dims]))\<rparr>)"

text \<open>\<^verbatim>\<open>t.unsqueeze(0)\<close>: a new leading dimension of size one.\<close>

definition unsqueeze0 :: "'a tensor \<Rightarrow> 'a tensor" where
  "unsqueeze0 t = \<lparr>shape = 1 # shape t, elem = (\<lambda>i. elem t (tl i))\<rparr>"

text \<open>
  \<^verbatim>\<open>torch.stack\<close> of a list of tensors along a new leading dimension: RuntimeError on
  the empty list and on tensors of different shapes.
\<close>

definition stack :: "'a tensor list \<Rightarrow> exn + 'a tensor" where
  "stack ts =
     (case ts of
        [] \<Rightarrow> Inl RuntimeError
      | t # rest \<Rightarrow>
          if list_ex (\<lambda>u. shape u \<noteq> shape t) rest then Inl RuntimeError
          else Inr \<lparr>shape = length ts # shape t, elem = (\<lambda>i. elem (ts ! (i ! 0)) (tl i))\<rparr>)"

text \<open>
  \<^verbatim>\<open>torch.argmax\<close> of one row of scores: the index of the first maximal value;
  IndexError on an empty row.
\<close>

fun argmax_from :: "'s::linorder list \<Rightarrow> nat \<Rightarrow> 's \<Rightarrow> nat \<Rightarrow> nat" where
  "argmax_from [] i best bi = bi"
| "argmax_from (x # xs) i best bi =
     (if best < x then argmax_from xs (Suc i) x i else argmax_from xs (Suc i) best bi)"

definition argmax :: "'s::linorder list \<Rightarrow> exn + nat" where
  "argmax row = (case row of [] \<Rightarrow> Inl IndexError | x # xs \<Rightarrow> Inr (argmax_from xs 1 x 0))"

text \<open>\<^verbatim>\<open>torch.argmax(preds, axis=1)\<close>: the argmax of every row, failing if one row fails.\<close>

fun argmax_rows :: "'s::linorder list list \<Rightarrow> exn + nat list" where
  "argmax_rows [] = Inr []"
| "argmax_rows (row # rows) =
     (case argmax row of
        Inl e \<Rightarrow> Inl e
      | Inr m \<Rightarrow> (case argmax_rows rows of Inl e \<Rightarrow> Inl e | Inr ms \<Rightarrow> Inr (m # ms)))"

text \<open>
  A column index of a tensor with \<open>n\<close> columns: torch counts a negative index from the
  end and raises IndexError outside \<open>-n \<le> i < n\<close>.
\<close>

definition column :: "nat \<Rightarrow> int \<Rightarrow> exn + nat" where
  "column n i =
     (if - int n \<le> i \<and> i < int n then Inr (nat (if i < 0 then i + int n else i))
      else Inl IndexError)"

fun columns :: "nat \<Rightarrow> int list \<Rightarrow> exn + nat list" where
  "columns n [] = Inr []"
| "columns n (i # is) =
     (case column n i of
        Inl e \<Rightarrow> Inl e
      | Inr c \<Rightarrow> (case columns n is of Inl e \<Rightarrow> Inl e | Inr cs \<Rightarrow> Inr (c # cs)))"

text \<open>\<^verbatim>\<open>data[:, present] = 1\<close> on a matrix with \<open>n\<close> columns.\<close>

definition set_present :: "nat \<Rightarrow> int list \<Rightarrow> int list list \<Rightarrow> exn + int list list" where
  "set_present n present data =
     (case columns n present of
        Inl e \<Rightarrow> Inl e
      | Inr cs \<Rightarrow> Inr (map (\<lambda>row. fold (\<lambda>c r. r[c := 1]) cs row) data))"

text \<open>
  \<^verbatim>\<open>torch.randint(0, 2, (num_samples, n))\<close>: the next \<open>num_samples * n\<close> draws of the
  generator, each reduced to 0 or 1; the generator moves on by as many draws.
\<close>

definition randint2 :: "nat \<Rightarrow> nat \<Rightarrow> 'v world \<Rightarrow> 'v world \<times> int list list" where
  "randint2 num_samples n w =
     (w\<lparr>rng := (\<lambda>k. rng w (k + num_samples * n))\<rparr>,
      map (\<lambda>i. map (\<lambda>j. int (rng w (i * n + j) mod 2)) [0..<n]) [0..<num_samples])"

text \<open>\<^verbatim>\<open>t.clone()\<close>: a new tensor in the store with the contents of the old one.\<close>

definition clone :: "nat \<Rightarrow> 'v world \<Rightarrow> 'v world \<times> nat" where
  "clone r w =
     (w\<lparr>tensors := (tensors w)(fresh w := tensors w r), fresh := Suc (fresh w)\<rparr>, fresh w)"

section \<open>\<^verbatim>\<open>ImageSampler\<close>\<close>

text \<open>
  One round of the loop of \<^verbatim>\<open>__init__\<close>:
  \<^verbatim>\<open>self.sp_image[self.segments == spixel, :] = torch.mean(self.sp_image[self.segments == spixel, :], axis=0)\<close>.
  The boolean mask has the shape of \<^verbatim>\<open>segments\<close>; torch raises IndexError unless that
  shape is the leading part of the shape of the indexed tensor and one more dimension
  is left for the \<^verbatim>\<open>:\<close>. Every selected position gets, in each remaining coordinate,
  the mean over all selected positions.
\<close>

definition fill_superpixel ::
  "'v ext \<Rightarrow> int tensor \<Rightarrow> int \<Rightarrow> nat \<Rightarrow> 'v world \<Rightarrow> 'v world \<times> (exn + unit)" where
  "fill_superpixel x segs spixel sp w =
     (let t = tensors w sp; k = length (shape segs) in
      if take k (shape t) \<noteq> shape segs \<or> length (shape t) \<le> k then (w, Inl IndexError)
      else
        let selected = filter (\<lambda>p. elem segs p = spixel) (indices (shape segs));
            t' = t\<lparr>elem := (\<lambda>i. if elem segs (take k i) = spixel
                                  then mean x (map (\<lambda>p. elem t (p @ drop k i)) selected)
                                  else elem t i)\<rparr>
        in (w\<lparr>tensors := (tensors w)(sp := t')\<rparr>, Inr ()))"

text \<open>\<^verbatim>\<open>for spixel in segment_features: ...\<close>\<close>

fun fill_superpixels ::
  "'v ext \<Rightarrow> int tensor \<Rightarrow> int list \<Rightarrow> nat \<Rightarrow> 'v world \<Rightarrow> 'v world \<times> (exn + unit)" where
  "fill_superpixels x segs [] sp w = (w, Inr ())"
| "fill_superpixels x segs (spixel # rest) sp w =
     (case fill_superpixel x segs spixel sp w of
        (w', Inl e) \<Rightarrow> (w', Inl e)
      | (w', Inr u) \<Rightarrow> fill_superpixels x segs rest sp w')"

text \<open>
  \<^verbatim>\<open>ImageSampler.__init__(self, input, predict_fn, **kwargs)\<close>, statement by statement.
  \<^verbatim>\<open>input.shape[2]\<close> raises IndexError on a tensor of fewer than three dimensions;
  the \<^verbatim>\<open>assert\<close> raises AssertionError; \<^verbatim>\<open>predict_fn(...)[0]\<close> raises IndexError on
  a score matrix without rows. The call of the predict function is logged before its
  outcome is looked at. \<^verbatim>\<open>self.image = input\<close> keeps the caller's reference.
\<close>

definition ImageSampler_init ::
  "'v ext \<Rightarrow> nat \<Rightarrow> ('v, 's::linorder) predict \<Rightarrow> (string \<times> 'k) list \<Rightarrow> 'v world
     \<Rightarrow> 'v world \<times> (exn + ('v, 's) ImageSampler)" where
  "ImageSampler_init x input predict kwargs w =
     (let inp = tensors w input in
      if length (shape inp) \<le> 2 then (w, Inl IndexError)
      else if shape inp ! 2 \<noteq> 3 then (w, Inl AssertionError)
      else
        case permute [2, 0, 1] inp of
          Inl e \<Rightarrow> (w, Inl e)
        | Inr chw \<Rightarrow>
            let batch = unsqueeze0 chw;
                w1 = w\<lparr>calls := calls w @ [batch]\<rparr>
            in (case predict batch of
                  Inl e \<Rightarrow> (w1, Inl e)
                | Inr preds \<Rightarrow>
                    (case preds of
                       [] \<Rightarrow> (w1, Inl IndexError)
                     | row # rows \<Rightarrow>
                         (case argmax row of
                            Inl e \<Rightarrow> (w1, Inl e)
                          | Inr lab \<Rightarrow>
                              (let segs = quickshift x inp;
                                   segment_features = unique segs;
                                   (w2, sp) = clone input w1
                               in (case fill_superpixels x segs segment_features sp w2 of
                                     (w3, Inl e) \<Rightarrow> (w3, Inl e)
                                   | (w3, Inr u) \<Rightarrow>
                                       (w3, Inr \<lparr>label = lab, segments = segs,
                                                 n_features = length segment_features,
                                                 sp_image = sp, image_ref = input,
                                                 predict_fn = predict\<rparr>)))))))"

text \<open>
  The statements of \<^verbatim>\<open>ImageSampler.__generate_image(self, feature_mask)\<close>.
  \<^verbatim>\<open>zeros = torch.where(feature_mask == 0)[0]\<close>: the features whose mask entry is 0.
\<close>

definition zero_features :: "int list \<Rightarrow> int list" where
  "zero_features feature_mask =
     map int (filter (\<lambda>j. feature_mask ! j = 0) [0..<length feature_mask])"

text \<open>
  \<^verbatim>\<open>mask = torch.zeros(self.segments.shape).bool()\<close> and
  \<^verbatim>\<open>for z in zeros: mask[self.segments == z] = True\<close>.
\<close>

definition segment_mask :: "int tensor \<Rightarrow> int list \<Rightarrow> nat list \<Rightarrow> bool" where
  "segment_mask segs zeros =
     fold (\<lambda>z m. (\<lambda>p. if elem segs p = z then True else m p)) zeros (\<lambda>p. False)"

text \<open>
  \<^verbatim>\<open>img[mask] = self.sp_image[mask]\<close>, where the mask covers the first \<open>k\<close> dimensions:
  the tensor \<open>img\<close> afterwards.
\<close>

definition masked_assign :: "nat \<Rightarrow> (nat list \<Rightarrow> bool) \<Rightarrow> 'v tensor \<Rightarrow> 'v tensor \<Rightarrow> 'v tensor" where
  "masked_assign k mask' spt img =
     img\<lparr>elem := (\<lambda>i. if mask' (take k i) then elem spt i else elem img i)\<rparr>"

text \<open>
  The method as a whole. The image is cloned and the clone is the only tensor written.
  torch raises IndexError when the mask does not fit the leading dimensions of either
  image. \<^verbatim>\<open>sp_image\<close> is made as a clone of \<^verbatim>\<open>image\<close>, so after \<^verbatim>\<open>__init__\<close> the
  remaining dimensions agree; for a sampler put together otherwise the assignment is
  reported as RuntimeError. The result is the reference of the clone.
\<close>

definition generate_image ::
  "('v, 's) ImageSampler \<Rightarrow> int list \<Rightarrow> 'v world \<Rightarrow> 'v world \<times> (exn + nat)" where
  "generate_image self feature_mask w =
     (let (w1, img) = clone (image_ref self) w;
          zeros = zero_features feature_mask;
          segs = segments self;
          k = length (shape segs);
          mask' = segment_mask segs zeros;
          spt = tensors w1 (sp_image self);
          it = tensors w1 img
      in if take k (shape spt) \<noteq> shape segs \<or> take k (shape it) \<noteq> shape segs
         then (w1, Inl IndexError)
         else if drop k (shape spt) \<noteq> drop k (shape it) then (w1, Inl RuntimeError)
         else (w1\<lparr>tensors := (tensors w1)(img := masked_assign k mask' spt it)\<rparr>, Inr img))"

text \<open>\<^verbatim>\<open>[self.__generate_image(mask) for mask in data]\<close>\<close>

fun generate_images ::
  "('v, 's) ImageSampler \<Rightarrow> int list list \<Rightarrow> 'v world \<Rightarrow> 'v world \<times> (exn + nat list)" where
  "generate_images self [] w = (w, Inr [])"
| "generate_images self (feature_mask # rest) w =
     (case generate_image self feature_mask w of
        (w1, Inl e) \<Rightarrow> (w1, Inl e)
      | (w1, Inr img) \<Rightarrow>
          (case generate_images self rest w1 of
             (w2, Inl e) \<Rightarrow> (w2, Inl e)
           | (w2, Inr imgs) \<Rightarrow> (w2, Inr (img # imgs))))"

text \<open>
  \<^verbatim>\<open>ImageSampler.sample(self, present, num_samples)\<close>, statement by statement.
  \<^verbatim>\<open>torch.randint\<close> raises RuntimeError on a negative size. The method has no
  assignment to an attribute of \<^verbatim>\<open>self\<close>; the object is returned beside the result
  so that this can be stated. The call of the predict function is logged before its
  outcome is looked at.
\<close>

definition ImageSampler_sample ::
  "('v, 's::linorder) ImageSampler \<Rightarrow> int list \<Rightarrow> int \<Rightarrow> 'v world
     \<Rightarrow> 'v world \<times> ('v, 's) ImageSampler \<times> (exn + int tensor \<times> int list list \<times> int list)" where
  "ImageSampler_sample self present num_samples w =
     (if num_samples < 0 then (w, self, Inl RuntimeError)
      else
        (let (w0, data0) = randint2 (nat num_samples) (n_features self) w in
         (case set_present (n_features self) present data0 of
            Inl e \<Rightarrow> (w0, self, Inl e)
          | Inr data \<Rightarrow>
              (case generate_images self data w0 of
                 (w1, Inl e) \<Rightarrow> (w1, self, Inl e)
               | (w1, Inr imgs) \<Rightarrow>
                   (case stack (map (tensors w1) imgs) of
                      Inl e \<Rightarrow> (w1, self, Inl e)
                    | Inr samples \<Rightarrow>
                        (case permute [0, 3, 1, 2] samples of
                           Inl e \<Rightarrow> (w1, self, Inl e)
                         | Inr batch \<Rightarrow>
                             (let w2 = w1\<lparr>calls := calls w1 @ [batch]\<rparr>
                              in (case predict_fn self batch of
                                    Inl e \<Rightarrow> (w2, self, Inl e)
                                  | Inr preds \<Rightarrow>
                                      (case argmax_rows preds of
                                         Inl e \<Rightarrow> (w2, self, Inl e)
                                       | Inr preds_max \<Rightarrow>
                                           (w2, self,
                                            Inr (segments self, data,
                                                 map (\<lambda>m. if m = label self then 1 else 0)
                                                   preds_max)))))))))))"

section \<open>The unimplemented samplers, the registry and method dispatch\<close>

text \<open>
  \<^verbatim>\<open>TabularSampler\<close> and \<^verbatim>\<open>TextSampler\<close> define neither \<^verbatim>\<open>__init__\<close> nor
  \<^verbatim>\<open>__new__\<close>, so calling the class with arguments raises TypeError
  (\<^verbatim>\<open>TabularSampler() takes no arguments\<close>). Their \<^verbatim>\<open>sample(self, input, predict_fn)\<close>
  has the body \<^verbatim>\<open>...\<close>: it returns \<^verbatim>\<open>None\<close> and touches nothing.
\<close>

definition TabularSampler_cls :: "('v, 's, 'k) pyclass" where
  "TabularSampler_cls =
     \<lparr>cls_type = TABULAR, construct = (\<lambda>input predict kwargs w. (w, Inl TypeError))\<rparr>"

definition TextSampler_cls :: "('v, 's, 'k) pyclass" where
  "TextSampler_cls =
     \<lparr>cls_type = TEXT, construct = (\<lambda>input predict kwargs w. (w, Inl TypeError))\<rparr>"

definition ImageSampler_cls :: "'v ext \<Rightarrow> ('v, 's::linorder, 'k) pyclass" where
  "ImageSampler_cls x =
     \<lparr>cls_type = IMAGE,
      construct = (\<lambda>input predict kwargs w.
         case ImageSampler_init x input predict kwargs w of
           (w', Inl e) \<Rightarrow> (w', Inl e)
         | (w', Inr self) \<Rightarrow> (w', Inr (ImageSamplerObj self)))\<rparr>"

text \<open>
  The dictionary \<^verbatim>\<open>Sampler.subclasses\<close> of \<^verbatim>\<open>Anchor/anchor.py\<close> once the module is
  loaded: the three class statements register in this order.
\<close>

definition Sampler_subclasses :: "'v ext \<Rightarrow> (Tasktype \<rightharpoonup> ('v, 's::linorder, 'k) pyclass)" where
  "Sampler_subclasses x =
     init_subclass (init_subclass (init_subclass Map.empty TabularSampler_cls)
       (ImageSampler_cls x)) TextSampler_cls"

definition TabularSampler_sample ::
  "'a \<Rightarrow> 'b \<Rightarrow> 'v world \<Rightarrow> 'v world \<times> (exn + (int tensor \<times> int list list \<times> int list) option)" where
  "TabularSampler_sample input predict w = (w, Inr None)"

definition TextSampler_sample ::
  "'a \<Rightarrow> 'b \<Rightarrow> 'v world \<Rightarrow> 'v world \<times> (exn + (int tensor \<times> int list list \<times> int list) option)" where
  "TextSampler_sample input predict w = (w, Inr None)"

text \<open>
  \<^verbatim>\<open>sampler.sample(present, num_samples)\<close> on an instance of any of the three classes.
  A returned tuple is \<open>Some\<close>, Python's \<^verbatim>\<open>None\<close> is \<open>None\<close>.
\<close>

fun Sampler_sample ::
  "('v, 's::linorder) Sampler \<Rightarrow> int list \<Rightarrow> int \<Rightarrow> 'v world
     \<Rightarrow> 'v world \<times> ('v, 's) Sampler \<times> (exn + (int tensor \<times> int list list \<times> int list) option)" where
  "Sampler_sample TabularSampler present num_samples w =
     (case TabularSampler_sample present num_samples w of (w', r) \<Rightarrow> (w', TabularSampler, r))"
| "Sampler_sample TextSampler present num_samples w =
     (case TextSampler_sample present num_samples w of (w', r) \<Rightarrow> (w', TextSampler, r))"
| "Sampler_sample (ImageSamplerObj self) present num_samples w =
     (case ImageSampler_sample self present num_samples w of
        (w', self', Inl e) \<Rightarrow> (w', ImageSamplerObj self', Inl e)
      | (w', self', Inr r) \<Rightarrow> (w', ImageSamplerObj self', Inr (Some r)))"

section \<open>\<^verbatim>\<open>Anchor\<close>\<close>

text \<open>
  \<^verbatim>\<open>@dataclass(frozen=True) class Anchor\<close>. The field \<^verbatim>\<open>sampler\<close> is declared with
  \<^verbatim>\<open>field(init=False)\<close> and no default: it is unset on a new instance.
\<close>

record ('v, 's) Anchor =
  tasktype :: Tasktype
  sampler :: "('v, 's) Sampler option"
  verbose :: bool

text \<open>
  Assigning to a field of an instance of a frozen dataclass: the generated
  \<^verbatim>\<open>__setattr__\<close> raises FrozenInstanceError whatever the field and the value.
\<close>

definition frozen_setattr :: "'o \<Rightarrow> 'o \<Rightarrow> exn + 'o" where
  "frozen_setattr self assigned = Inl FrozenInstanceError"

text \<open>
  The parameter list of \<^verbatim>\<open>__greedy_anchor(sample_fn, delta=0.05, epsilon=0.1, batch_size=16)\<close>:
  an argument that the caller leaves out takes its default.
\<close>

definition greedy_anchor_params :: "rat option \<Rightarrow> rat option \<Rightarrow> int option \<Rightarrow> rat \<times> rat \<times> int" where
  "greedy_anchor_params delta epsilon batch_size =
     (case delta of None \<Rightarrow> 0.05 | Some d \<Rightarrow> d,
      case epsilon of None \<Rightarrow> 0.1 | Some e \<Rightarrow> e,
      case batch_size of None \<Rightarrow> 16 | Some b \<Rightarrow> b)"

text \<open>The body of \<^verbatim>\<open>__greedy_anchor\<close> is \<^verbatim>\<open>...\<close>: it returns \<^verbatim>\<open>None\<close>.\<close>

definition greedy_anchor :: "'a \<Rightarrow> 'b \<Rightarrow> 'c \<Rightarrow> 'd \<Rightarrow> unit" where
  "greedy_anchor sample_fn delta epsilon batch_size = ()"

text \<open>
  \<^verbatim>\<open>Anchor.explain_instance(self, input, predict_fn)\<close>. The right-hand side of the
  first statement, \<^verbatim>\<open>Sampler.create(...)\<close>, is evaluated before the assignment to
  \<^verbatim>\<open>self.sampler\<close> is attempted. The second statement calls \<^verbatim>\<open>__greedy_anchor\<close>, which
  has no \<^verbatim>\<open>self\<close> parameter, as a bound method: the instance is bound to \<^verbatim>\<open>sample_fn\<close>
  and the sampler's \<^verbatim>\<open>sample\<close> to \<^verbatim>\<open>delta\<close>; the other two take their defaults.
  There is no \<^verbatim>\<open>return\<close>: a normal end gives \<^verbatim>\<open>None\<close>, the unit value here.
\<close>

definition explain_instance ::
  "'v ext \<Rightarrow> ('v, 's::linorder) Anchor \<Rightarrow> nat \<Rightarrow> ('v, 's) predict \<Rightarrow> 'v world
     \<Rightarrow> 'v world \<times> (exn + unit)" where
  "explain_instance x self input predict w =
     (case Sampler_create (Sampler_subclasses x) (tasktype self) input predict ([] :: (string \<times> unit) list) w of
        (w1, Inl e) \<Rightarrow> (w1, Inl e)
      | (w1, Inr smp) \<Rightarrow>
          (case frozen_setattr self (self\<lparr>sampler := Some smp\<rparr>) of
             Inl e \<Rightarrow> (w1, Inl e)
           | Inr self' \<Rightarrow>
               (case sampler self' of
                  None \<Rightarrow> (w1, Inl (Raised ''AttributeError''))
                | Some smp' \<Rightarrow>
                    (let (d, eps, bs) = greedy_anchor_params None None None;
                         exp = greedy_anchor self' (Sampler_sample smp') eps bs
                     in (w1, Inr ())))))"

section \<open>A sampler that fits its world\<close>

text \<open>
  What \<^verbatim>\<open>__init__\<close> leaves behind and \<^verbatim>\<open>sample\<close> relies on: both image tensors are
  allocated, they have the same shape, and the shape of the segmentation is the leading
  part of it.
\<close>

definition consistent :: "('v, 's) ImageSampler \<Rightarrow> 'v world \<Rightarrow> bool" where
  "consistent self w \<longleftrightarrow>
     image_ref self < fresh w \<and> sp_image self < fresh w \<and>
     shape (tensors w (sp_image self)) = shape (tensors w (image_ref self)) \<and>
     take (length (shape (segments self))) (shape (tensors w (image_ref self))) = shape (segments self)"

section \<open>A concrete run\<close>

text \<open>
  A one-pixel image with three channels at reference 0, a segmentation that puts every
  pixel into segment 0, and a predict function that scores class 1 above class 0 for
  every sample of its batch. \<open>example_sampler\<close> is the sampler that \<^verbatim>\<open>__init__\<close>
  builds from them and \<open>example_world\<close> the world it leaves.
\<close>

definition example_image :: "int tensor" where
  "example_image = \<lparr>shape = [1, 1, 3], elem = (\<lambda>i. 7)\<rparr>"

definition example_start :: "int world" where
  "example_start = \<lparr>tensors = (\<lambda>r. example_image), fresh = 1, calls = [], rng = (\<lambda>k. k)\<rparr>"

definition example_ext :: "int ext" where
  "example_ext =
     \<lparr>quickshift = (\<lambda>t. \<lparr>shape = take 2 (shape t), elem = (\<lambda>i. 0)\<rparr>),
      mean = (\<lambda>xs. case xs of [] \<Rightarrow> 0 | v # vs \<Rightarrow> v)\<rparr>"

definition example_predict :: "(int, int) predict" where
  "example_predict b = Inr (map (\<lambda>i. [0, 1]) [0..<shape b ! 0])"

definition example_sampler :: "(int, int) ImageSampler" where
  "example_sampler =
     \<lparr>label = 1, segments = \<lparr>shape = [1, 1], elem = (\<lambda>i. 0)\<rparr>, n_features = 1,
      sp_image = 1, image_ref = 0, predict_fn = example_predict\<rparr>"

definition example_world :: "int world" where
  "example_world =
     \<lparr>tensors = (\<lambda>r. example_image), fresh = 2,
      calls = [\<lparr>shape = [1, 3, 1, 1], elem = (\<lambda>i. 7)\<rparr>], rng = (\<lambda>k. k)\<rparr>"

definition example_anchor :: "(int, int) Anchor" where
  "example_anchor = \<lparr>tasktype = IMAGE, sampler = None, verbose = False\<rparr>"

text \<open>
  Three inputs the constructor rejects: a tensor of two dimensions, a one-pixel image
  with four channels, and a tensor of four dimensions whose third has size 3.
\<close>

definition example_gray :: "int world" where
  "example_gray = example_start\<lparr>tensors := (\<lambda>r. \<lparr>shape = [1, 1], elem = (\<lambda>i. 7)\<rparr>)\<rparr>"

definition example_rgba :: "int world" where
  "example_rgba = example_start\<lparr>tensors := (\<lambda>r. \<lparr>shape = [1, 1, 4], elem = (\<lambda>i. 7)\<rparr>)\<rparr>"

definition example_video :: "int world" where
  "example_video = example_start\<lparr>tensors := (\<lambda>r. \<lparr>shape = [1, 1, 3, 2], elem = (\<lambda>i. 7)\<rparr>)\<rparr>"

text \<open>
  A world in which the superpixel image (reference 1, all 9) differs from the image
  (reference 0, all 7), and whose generator draws 0 only: a feature that is not forced
  to 1 is replaced.
\<close>

definition example_superpixels :: "int world" where
  "example_superpixels =
     \<lparr>tensors = (\<lambda>a. if a = 1 then \<lparr>shape = [1, 1, 3], elem = (\<lambda>i. 9)\<rparr> else example_image),
      fresh = 2, calls = [], rng = (\<lambda>k. 0)\<rparr>"

section \<open>Defaults of the greedy search\<close>

text \<open>
  Claim C7, as the code has it: when the caller leaves the configuration out,
  \<^verbatim>\<open>__greedy_anchor\<close> takes \<open>delta = 0.05\<close>, \<open>epsilon = 0.1\<close> and
  \<open>batch_size = 16\<close>.
\<close>

theorem greedy_anchor_defaults:
  "greedy_anchor_params None None None = (0.05, 0.1, 16)"
  by (simp add: greedy_anchor_params_def)

text \<open>
  The defaults are not \<open>delta = 0.1\<close> and \<open>epsilon = 0.15\<close>; only \<open>batch_size = 16\<close>
  is as claimed.
\<close>

theorem greedy_anchor_defaults_counterexample:
  "fst (greedy_anchor_params None None None) \<noteq> 0.1 \<and>
   fst (snd (greedy_anchor_params None None None)) \<noteq> 0.15 \<and>
   snd (snd (greedy_anchor_params None None None)) = 16"
  by (simp add: greedy_anchor_params_def)

section \<open>Dispatch of the two factories\<close>

text \<open>
  Claim C9, as the code has it: for every registry, both \<^verbatim>\<open>create\<close> methods raise
  the ValueError \<^verbatim>\<open>Bad message type ...\<close> without touching anything when the task type
  is not registered; when it is registered, the outcome of \<^verbatim>\<open>create\<close> is the outcome
  of calling the registered class (its instance, or the exception it raises), with
  \<^verbatim>\<open>**kwargs\<close> in \<^verbatim>\<open>Anchor/anchor.py\<close> and with \<^verbatim>\<open>**task_specific\<close> in
  \<^verbatim>\<open>ianchor/samplers\<close>; given the same keyword arguments the two factories do the
  same; and a class is registered under its own \<^verbatim>\<open>type\<close>.
\<close>

theorem create_dispatch:
  "(subclasses type = None \<longrightarrow>
      Sampler_create subclasses type input predict kwargs w =
        (w, Inl (ValueError (''Bad message type '' @ Tasktype_str type))) \<and>
      Sampler_create_ianchor subclasses type input predict task_specific kwargs w =
        (w, Inl (ValueError (''Bad message type '' @ Tasktype_str type)))) \<and>
   (\<forall>cls. subclasses type = Some cls \<longrightarrow>
      Sampler_create subclasses type input predict kwargs w = construct cls input predict kwargs w \<and>
      Sampler_create_ianchor subclasses type input predict task_specific kwargs w =
        construct cls input predict task_specific w) \<and>
   Sampler_create_ianchor subclasses type input predict kwargs kwargs' w =
     Sampler_create subclasses type input predict kwargs w \<and>
   init_subclass subclasses c (cls_type c) = Some c"
  by (simp add: Sampler_create_def Sampler_create_ianchor_def init_subclass_def)

text \<open>
  The theorem at a registered type (\<^verbatim>\<open>TABULAR\<close> in the registry of
  \<^verbatim>\<open>Anchor/anchor.py\<close>) and at an unregistered one (\<^verbatim>\<open>IMAGE\<close> in an empty registry).
\<close>

theorem create_dispatch_witness:
  "Sampler_subclasses example_ext TABULAR = Some (TabularSampler_cls :: (int, int, unit) pyclass) \<and>
   Sampler_create (Sampler_subclasses example_ext) TABULAR 0 example_predict ([] :: (string \<times> unit) list) example_start
     = construct (TabularSampler_cls :: (int, int, unit) pyclass) 0 example_predict [] example_start \<and>
   (Map.empty :: Tasktype \<rightharpoonup> (int, int, unit) pyclass) IMAGE = None \<and>
   Sampler_create (Map.empty :: Tasktype \<rightharpoonup> (int, int, unit) pyclass) IMAGE 0 example_predict [] example_start
     = (example_start, Inl (ValueError ''Bad message type Tasktype.IMAGE''))"
proof -
  have r: "Sampler_subclasses example_ext TABULAR = Some (TabularSampler_cls :: (int, int, unit) pyclass)"
    by (simp add: Sampler_subclasses_def init_subclass_def TabularSampler_cls_def
        ImageSampler_cls_def TextSampler_cls_def)
  have e: "(Map.empty :: Tasktype \<rightharpoonup> (int, int, unit) pyclass) IMAGE = None"
    by simp
  from r e
    create_dispatch [where subclasses = "Sampler_subclasses example_ext :: Tasktype \<rightharpoonup> (int, int, unit) pyclass"
      and type = TABULAR and input = 0 and predict = example_predict and kwargs = "[]" and w = example_start
      and task_specific = "[]" and kwargs' = "[]" and c = TabularSampler_cls]
    create_dispatch [where subclasses = "Map.empty :: Tasktype \<rightharpoonup> (int, int, unit) pyclass"
      and type = IMAGE and input = 0 and predict = example_predict and kwargs = "[]" and w = example_start
      and task_specific = "[]" and kwargs' = "[]" and c = TabularSampler_cls]
  show ?thesis by simp
qed

text \<open>
  \<^verbatim>\<open>IMAGE\<close> is registered in \<^verbatim>\<open>Anchor/anchor.py\<close>. For a one-pixel image with four
  channels \<^verbatim>\<open>create\<close> raises AssertionError: no ValueError, and no instance. For the
  well-formed image and a predict function that raises ValueError, \<^verbatim>\<open>create\<close> raises
  that ValueError although the type is registered.
\<close>

theorem create_dispatch_counterexample:
  "Sampler_subclasses example_ext IMAGE = Some (ImageSampler_cls example_ext :: (int, int, unit) pyclass) \<and>
   Sampler_create (Sampler_subclasses example_ext) IMAGE 0 example_predict ([] :: (string \<times> unit) list) example_rgba
     = (example_rgba, Inl AssertionError) \<and>
   snd (Sampler_create (Sampler_subclasses example_ext) IMAGE 0
          (\<lambda>b. Inl (ValueError ''no scores'') :: exn + int list list)
          ([] :: (string \<times> unit) list) example_start)
     = Inl (ValueError ''no scores'')"
  by (simp add: Sampler_create_def Sampler_subclasses_def init_subclass_def TabularSampler_cls_def
      ImageSampler_cls_def TextSampler_cls_def ImageSampler_init_def example_rgba_def
      example_start_def example_image_def permute_def Let_def)

section \<open>Validation at construction\<close>

lemma permute_length: "permute dims t = Inr r \<Longrightarrow> length dims = length (shape t)"
proof -
  assume a: "permute dims t = Inr r"
  then have "sort dims = [0..<length (shape t)]"
    by (simp add: permute_def split: if_splits)
  then have "length (sort dims) = length [0..<length (shape t)]" by simp
  then show ?thesis by simp
qed

lemma permute_rank3: "length (shape t) \<noteq> 3 \<Longrightarrow> permute [2, 0, 1] t = Inl RuntimeError"
proof (cases "permute [2, 0, 1] t")
  case (Inl e)
  then show ?thesis by (simp add: permute_def split: if_splits)
next
  case (Inr r)
  assume "length (shape t) \<noteq> 3"
  with permute_length [OF Inr] show ?thesis by simp
qed

text \<open>
  Claim C5, as the code has it: \<^verbatim>\<open>ImageSampler.__init__\<close> rejects an input of fewer
  than three dimensions with IndexError (from \<^verbatim>\<open>input.shape[2]\<close>), an input whose third
  dimension is not 3 with AssertionError (from the \<^verbatim>\<open>assert\<close>), and an input of more
  than three dimensions with RuntimeError (from \<^verbatim>\<open>permute(2, 0, 1)\<close>). In each case
  the world is returned as it was: the predict function has not been called, nothing has
  been allocated and nothing is retried.
\<close>

theorem init_rejects_malformed:
  "(length (shape (tensors w input)) \<le> 2 \<longrightarrow>
      ImageSampler_init x input predict kwargs w = (w, Inl IndexError)) \<and>
   (2 < length (shape (tensors w input)) \<and> shape (tensors w input) ! 2 \<noteq> 3 \<longrightarrow>
      ImageSampler_init x input predict kwargs w = (w, Inl AssertionError)) \<and>
   (3 < length (shape (tensors w input)) \<and> shape (tensors w input) ! 2 = 3 \<longrightarrow>
      ImageSampler_init x input predict kwargs w = (w, Inl RuntimeError))"
  using permute_rank3 [of "tensors w input"]
  by (auto simp: ImageSampler_init_def Let_def)

text \<open>
  The theorem at one input for each of its three cases.
\<close>

theorem init_rejects_malformed_witness:
  "length (shape (tensors example_gray 0)) \<le> 2 \<and>
   ImageSampler_init example_ext 0 example_predict ([] :: (string \<times> unit) list) example_gray
     = (example_gray, Inl IndexError) \<and>
   2 < length (shape (tensors example_rgba 0)) \<and> shape (tensors example_rgba 0) ! 2 \<noteq> 3 \<and>
   ImageSampler_init example_ext 0 example_predict ([] :: (string \<times> unit) list) example_rgba
     = (example_rgba, Inl AssertionError) \<and>
   3 < length (shape (tensors example_video 0)) \<and> shape (tensors example_video 0) ! 2 = 3 \<and>
   ImageSampler_init example_ext 0 example_predict ([] :: (string \<times> unit) list) example_video
     = (example_video, Inl RuntimeError)"
proof -
  have g: "length (shape (tensors example_gray 0)) \<le> 2"
    by (simp add: example_gray_def)
  have a: "2 < length (shape (tensors example_rgba 0)) \<and> shape (tensors example_rgba 0) ! 2 \<noteq> 3"
    by (simp add: example_rgba_def)
  have v: "3 < length (shape (tensors example_video 0)) \<and> shape (tensors example_video 0) ! 2 = 3"
    by (simp add: example_video_def)
  from g a v
    init_rejects_malformed [of example_gray 0 example_ext example_predict "[] :: (string \<times> unit) list"]
    init_rejects_malformed [of example_rgba 0 example_ext example_predict "[] :: (string \<times> unit) list"]
    init_rejects_malformed [of example_video 0 example_ext example_predict "[] :: (string \<times> unit) list"]
  show ?thesis by blast
qed

text \<open>
  A one-pixel image with four channels is rejected with AssertionError, which is not
  the InvalidInputError of the claim.
\<close>

theorem init_rejects_malformed_counterexample:
  "shape (tensors example_rgba 0) = [1, 1, 4] \<and>
   snd (ImageSampler_init example_ext 0 example_predict ([] :: (string \<times> unit) list) example_rgba)
     = Inl AssertionError \<and>
   snd (ImageSampler_init example_ext 0 example_predict ([] :: (string \<times> unit) list) example_rgba)
     \<noteq> Inl InvalidInputError"
  by (simp add: ImageSampler_init_def example_rgba_def)

section \<open>What the constructor does to the world\<close>

lemma fill_superpixel_frame:
  "fill_superpixel x segs spixel sp w = (w', r) \<Longrightarrow>
     calls w' = calls w \<and> rng w' = rng w \<and> fresh w' = fresh w"
  by (auto simp: fill_superpixel_def Let_def split: if_splits)

lemma fill_superpixels_frame:
  "fill_superpixels x segs feats sp w = (w', r) \<Longrightarrow>
     calls w' = calls w \<and> rng w' = rng w \<and> fresh w' = fresh w"
proof (induction feats arbitrary: w)
  case Nil
  then show ?case by simp
next
  case (Cons spixel rest)
  obtain w1 r1 where f: "fill_superpixel x segs spixel sp w = (w1, r1)"
    by (cases "fill_superpixel x segs spixel sp w")
  show ?case
  proof (cases r1)
    case (Inl e)
    with Cons.prems f fill_superpixel_frame [OF f] show ?thesis by simp
  next
    case (Inr u)
    with Cons.prems f have "fill_superpixels x segs rest sp w1 = (w', r)" by simp
    from Cons.IH [OF this] fill_superpixel_frame [OF f] show ?thesis by simp
  qed
qed

lemma init_effects:
  assumes "ImageSampler_init x input predict kwargs w = (w', r)"
  shows "rng w' = rng w \<and>
         (w' = w \<and> (\<exists>e. r = Inl e) \<or>
          (\<exists>chw. permute [2, 0, 1] (tensors w input) = Inr chw \<and>
                 calls w' = calls w @ [unsqueeze0 chw]))"
proof (cases "length (shape (tensors w input)) \<le> 2 \<or> shape (tensors w input) ! 2 \<noteq> 3")
  case True
  with assms show ?thesis
    by (auto simp: ImageSampler_init_def Let_def split: if_splits)
next
  case shape_ok: False
  show ?thesis
  proof (cases "permute [2, 0, 1] (tensors w input)")
    case (Inl e)
    with assms shape_ok show ?thesis
      by (auto simp: ImageSampler_init_def Let_def)
  next
    case (Inr chw)
    define w1 where "w1 = w\<lparr>calls := calls w @ [unsqueeze0 chw]\<rparr>"
    have w1: "calls w1 = calls w @ [unsqueeze0 chw]" "rng w1 = rng w"
      by (simp_all add: w1_def)
    show ?thesis
    proof (cases "predict (unsqueeze0 chw)")
      case (Inl e)
      with assms shape_ok Inr have "w' = w1"
        by (auto simp: ImageSampler_init_def Let_def w1_def)
      with w1 Inr show ?thesis by simp
    next
      case preds: (Inr preds)
      show ?thesis
      proof (cases preds)
        case Nil
        with assms shape_ok Inr preds have "w' = w1"
          by (auto simp: ImageSampler_init_def Let_def w1_def)
        with w1 Inr show ?thesis by simp
      next
        case (Cons row rows)
        show ?thesis
        proof (cases "argmax row")
          case (Inl e)
          with assms shape_ok Inr preds Cons have "w' = w1"
            by (auto simp: ImageSampler_init_def Let_def w1_def)
          with w1 Inr show ?thesis by simp
        next
          case lab: (Inr lab)
          obtain w2 sp where c: "clone input w1 = (w2, sp)" by (cases "clone input w1")
          then have w2: "calls w2 = calls w1" "rng w2 = rng w1"
            by (auto simp: clone_def)
          obtain w3 r3 where f: "fill_superpixels x (quickshift x (tensors w input))
              (unique (quickshift x (tensors w input))) sp w2 = (w3, r3)"
            by (cases "fill_superpixels x (quickshift x (tensors w input))
              (unique (quickshift x (tensors w input))) sp w2")
          from assms shape_ok Inr preds Cons lab c f have "w' = w3"
            by (auto simp: ImageSampler_init_def Let_def w1_def split: sum.splits)
          with fill_superpixels_frame [OF f] w2 w1 Inr show ?thesis by simp
        qed
      qed
    qed
  qed
qed

lemma example_init:
  "ImageSampler_init example_ext 0 example_predict ([] :: (string \<times> unit) list) example_start
     = (w, r) \<Longrightarrow> (\<exists>s. r = Inr s) \<and> length (calls w) = 1"
  by (auto simp: ImageSampler_init_def example_start_def example_image_def example_ext_def
      example_predict_def permute_def unsqueeze0_def argmax_def unique_def clone_def
      fill_superpixel_def Let_def position_def split: if_splits)

section \<open>\<^verbatim>\<open>explain_instance\<close>\<close>

lemma subclasses_lookup:
  "Sampler_subclasses x TABULAR = Some TabularSampler_cls"
  "Sampler_subclasses x IMAGE = Some (ImageSampler_cls x)"
  "Sampler_subclasses x TEXT = Some TextSampler_cls"
  by (simp_all add: Sampler_subclasses_def init_subclass_def TabularSampler_cls_def
      ImageSampler_cls_def TextSampler_cls_def)

lemma explain_instance_IMAGE:
  assumes "tasktype self = IMAGE"
    and "ImageSampler_init x input predict ([] :: (string \<times> unit) list) w = (w1, r1)"
  shows "explain_instance x self input predict w =
           (w1, case r1 of Inl e \<Rightarrow> Inl e | Inr s \<Rightarrow> Inl FrozenInstanceError)"
  using assms
  by (simp add: explain_instance_def Sampler_create_def subclasses_lookup ImageSampler_cls_def
      frozen_setattr_def split: sum.splits)

lemma explain_instance_other:
  assumes "tasktype self \<noteq> IMAGE"
  shows "explain_instance x self input predict w = (w, Inl TypeError)"
  using assms
  by (cases "tasktype self")
     (simp_all add: explain_instance_def Sampler_create_def subclasses_lookup
        TabularSampler_cls_def TextSampler_cls_def)

text \<open>
  Claim C1, at a concrete input: for the one-pixel image, a predict function that
  answers every batch and the task type \<^verbatim>\<open>IMAGE\<close>, \<^verbatim>\<open>explain_instance\<close> ends with
  FrozenInstanceError and returns nothing.
\<close>

theorem explain_instance_example:
  "snd (explain_instance example_ext example_anchor 0 example_predict example_start)
     = Inl FrozenInstanceError"
proof -
  obtain w r where i: "ImageSampler_init example_ext 0 example_predict ([] :: (string \<times> unit) list) example_start = (w, r)"
    by (cases "ImageSampler_init example_ext 0 example_predict ([] :: (string \<times> unit) list) example_start")
  from example_init [OF i] obtain s where "r = Inr s" by blast
  with i show ?thesis
    by (simp add: explain_instance_def Sampler_create_def Sampler_subclasses_def init_subclass_def
        TabularSampler_cls_def ImageSampler_cls_def TextSampler_cls_def example_anchor_def
        frozen_setattr_def)
qed

text \<open>
  Claim C8, as the code has it: \<^verbatim>\<open>explain_instance\<close> never ends normally. It draws
  nothing from the random generator, so no sample is taken. For the task types
  \<^verbatim>\<open>TABULAR\<close> and \<^verbatim>\<open>TEXT\<close> it raises TypeError and leaves the world as it
  was. For \<^verbatim>\<open>IMAGE\<close> the sampler is constructed before the assignment to the frozen
  field is attempted, so the predict function is called at most once, and if it is,
  on the original instance alone.
\<close>

theorem explain_instance_raises:
  assumes "explain_instance x self input predict w = (w', r)"
  shows "(\<exists>e. r = Inl e) \<and> rng w' = rng w \<and>
         (tasktype self \<noteq> IMAGE \<longrightarrow> w' = w \<and> r = Inl TypeError) \<and>
         (calls w' = calls w \<or>
          (\<exists>chw. permute [2, 0, 1] (tensors w input) = Inr chw \<and>
                 calls w' = calls w @ [unsqueeze0 chw]))"
proof (cases "tasktype self = IMAGE")
  case True
  obtain w1 r1 where i: "ImageSampler_init x input predict ([] :: (string \<times> unit) list) w = (w1, r1)"
    by (cases "ImageSampler_init x input predict ([] :: (string \<times> unit) list) w")
  from explain_instance_IMAGE [OF True i] assms
  have e: "w' = w1" "r = (case r1 of Inl e \<Rightarrow> Inl e | Inr s \<Rightarrow> Inl FrozenInstanceError)"
    by simp_all
  from e(2) have "\<exists>e. r = Inl e" by (cases r1) simp_all
  moreover from init_effects [OF i] e(1)
  have "rng w' = rng w \<and>
        (calls w' = calls w \<or>
         (\<exists>chw. permute [2, 0, 1] (tensors w input) = Inr chw \<and>
                calls w' = calls w @ [unsqueeze0 chw]))"
    by auto
  ultimately show ?thesis using True by simp
next
  case False
  from explain_instance_other [OF False, of x input predict w] assms
  have "w' = w" "r = Inl TypeError" by simp_all
  then show ?thesis by simp
qed

text \<open>
  The theorem at the concrete image run and at a run with the task type \<^verbatim>\<open>TEXT\<close>.
\<close>

theorem explain_instance_raises_witness:
  "(\<exists>e. snd (explain_instance example_ext example_anchor 0 example_predict example_start) = Inl e) \<and>
   tasktype (example_anchor\<lparr>tasktype := TEXT\<rparr>) \<noteq> IMAGE \<and>
   explain_instance example_ext (example_anchor\<lparr>tasktype := TEXT\<rparr>) 0 example_predict example_start
     = (example_start, Inl TypeError)"
proof -
  obtain w r where a: "explain_instance example_ext example_anchor 0 example_predict example_start = (w, r)"
    by (cases "explain_instance example_ext example_anchor 0 example_predict example_start")
  obtain w2 r2 where b: "explain_instance example_ext (example_anchor\<lparr>tasktype := TEXT\<rparr>) 0 example_predict example_start = (w2, r2)"
    by (cases "explain_instance example_ext (example_anchor\<lparr>tasktype := TEXT\<rparr>) 0 example_predict example_start")
  have t: "tasktype (example_anchor\<lparr>tasktype := TEXT\<rparr>) \<noteq> IMAGE" by simp
  from explain_instance_raises [OF a] explain_instance_raises [OF b] a b t
  show ?thesis by simp
qed

text \<open>
  In the concrete image run the log of predict calls is empty at the start and holds
  one call when FrozenInstanceError is raised: the exception does not come before every
  predict call.
\<close>

theorem explain_instance_raises_counterexample:
  "calls example_start = [] \<and>
   snd (explain_instance example_ext example_anchor 0 example_predict example_start)
     = Inl FrozenInstanceError \<and>
   length (calls (fst (explain_instance example_ext example_anchor 0 example_predict example_start)))
     = 1"
proof -
  obtain w r where i: "ImageSampler_init example_ext 0 example_predict ([] :: (string \<times> unit) list) example_start = (w, r)"
    by (cases "ImageSampler_init example_ext 0 example_predict ([] :: (string \<times> unit) list) example_start")
  from example_init [OF i] obtain s where s: "r = Inr s" and c: "length (calls w) = 1" by blast
  have "tasktype example_anchor = IMAGE" by (simp add: example_anchor_def)
  from explain_instance_IMAGE [OF this i] s c show ?thesis
    by (simp add: example_start_def)
qed

section \<open>What \<^verbatim>\<open>sample\<close> does to the world\<close>

text \<open>
  Generating an image allocates one tensor and writes to that tensor only; drawing the
  mask touches neither the store nor the log of predict calls.
\<close>

lemma generate_image_frame:
  assumes "generate_image self feature_mask w = (w', r)"
  shows "fresh w' = Suc (fresh w) \<and> calls w' = calls w \<and> rng w' = rng w \<and>
         (\<forall>a. a \<noteq> fresh w \<longrightarrow> tensors w' a = tensors w a) \<and>
         (\<forall>img. r = Inr img \<longrightarrow> img = fresh w)"
  using assms
  by (auto simp: generate_image_def clone_def Let_def split: if_splits)

lemma generate_images_frame:
  "generate_images self data w = (w', r) \<Longrightarrow>
     fresh w \<le> fresh w' \<and> calls w' = calls w \<and> rng w' = rng w \<and>
     (\<forall>a. a < fresh w \<longrightarrow> tensors w' a = tensors w a) \<and>
     (\<forall>imgs. r = Inr imgs \<longrightarrow> length imgs = length data)"
proof (induction data arbitrary: w w' r)
  case Nil
  then show ?case by auto
next
  case (Cons feature_mask rest)
  obtain w1 r1 where g: "generate_image self feature_mask w = (w1, r1)"
    by (cases "generate_image self feature_mask w")
  note f1 = generate_image_frame [OF g]
  show ?case
  proof (cases r1)
    case (Inl e)
    with Cons.prems g have "w' = w1" "r = Inl e" by simp_all
    with f1 show ?thesis by simp
  next
    case (Inr img)
    obtain w2 r2 where gs: "generate_images self rest w1 = (w2, r2)"
      by (cases "generate_images self rest w1")
    note f2 = Cons.IH [OF gs]
    from Cons.prems g Inr gs
    have "(w', r) = (w2, case r2 of Inl e \<Rightarrow> Inl e | Inr imgs \<Rightarrow> Inr (img # imgs))"
      by (cases r2) auto
    then have w': "w' = w2" and r: "r = (case r2 of Inl e \<Rightarrow> Inl e | Inr imgs \<Rightarrow> Inr (img # imgs))"
      by simp_all
    have "\<forall>imgs. r = Inr imgs \<longrightarrow> length imgs = length (feature_mask # rest)"
      using r f2 by (cases r2) auto
    moreover have "\<forall>a. a < fresh w \<longrightarrow> tensors w' a = tensors w a"
      using f1 f2 w' by auto
    moreover have "fresh w \<le> fresh w' \<and> calls w' = calls w \<and> rng w' = rng w"
      using f1 f2 w' by auto
    ultimately show ?thesis by blast
  qed
qed

lemma randint2_world:
  "randint2 num_samples n w = (w0, data0) \<Longrightarrow>
     tensors w0 = tensors w \<and> fresh w0 = fresh w \<and> calls w0 = calls w"
  by (auto simp: randint2_def)

lemma randint2_data:
  "randint2 num_samples n w = (w0, data0) \<Longrightarrow>
     length data0 = num_samples \<and> (\<forall>row \<in> set data0. length row = n \<and> set row \<subseteq> {0, 1})"
  by (auto simp: randint2_def)

subsection \<open>The presence mask\<close>

lemma columns_sound:
  "columns n present = Inr cs \<Longrightarrow>
     set cs = {c. \<exists>p \<in> set present. column n p = Inr c} \<and> (\<forall>c \<in> set cs. c < n)"
proof (induction present arbitrary: cs)
  case Nil
  then show ?case by auto
next
  case (Cons p ps)
  from Cons.prems obtain c cs' where c: "column n p = Inr c" and cs': "columns n ps = Inr cs'"
    and cs: "cs = c # cs'"
    by (auto split: sum.splits)
  from c have "c < n" by (auto simp: column_def split: if_splits)
  with Cons.IH [OF cs'] c cs show ?case by auto
qed

lemma columns_total:
  "columns n present = Inr cs \<Longrightarrow> p \<in> set present \<Longrightarrow> \<exists>c. column n p = Inr c \<and> c \<in> set cs"
  by (induction present arbitrary: cs) (auto split: sum.splits)

lemma fold_update_length: "length (fold (\<lambda>c r. r[c := v]) cs row) = length row"
  by (induction cs arbitrary: row) auto

lemma fold_update_set: "set (fold (\<lambda>c r. r[c := v]) cs row) \<subseteq> insert v (set row)"
proof (induction cs arbitrary: row)
  case Nil
  then show ?case by auto
next
  case (Cons c cs)
  have "set (row[c := v]) \<subseteq> insert v (set row)" by (rule set_update_subset_insert)
  with Cons.IH [of "row[c := v]"] show ?case by auto
qed

lemma fold_update_nth:
  "c \<in> set cs \<Longrightarrow> c < length row \<Longrightarrow> fold (\<lambda>c r. r[c := v]) cs row ! c = v"
proof (induction cs arbitrary: row)
  case Nil
  then show ?case by simp
next
  case (Cons d cs)
  show ?case
  proof (cases "c \<in> set cs")
    case True
    with Cons.IH [of "row[d := v]"] Cons.prems show ?thesis by simp
  next
    case False
    with Cons.prems have d: "d = c" by simp
    have "\<And>r. c \<notin> set cs \<Longrightarrow> fold (\<lambda>c r. r[c := v]) cs r ! c = r ! c"
      by (induction cs) auto
    with False d Cons.prems show ?thesis by simp
  qed
qed

lemma set_present_sound:
  assumes "set_present n present data0 = Inr data"
    and "\<forall>row \<in> set data0. length row = n \<and> set row \<subseteq> {0, 1}"
  shows "length data = length data0 \<and>
         (\<forall>row \<in> set data. length row = n \<and> set row \<subseteq> {0, 1} \<and>
            (\<forall>p \<in> set present. \<exists>c. column n p = Inr c \<and> c < n \<and> row ! c = 1))"
proof -
  from assms(1) obtain cs where cs: "columns n present = Inr cs"
    and data: "data = map (\<lambda>row. fold (\<lambda>c r. r[c := 1]) cs row) data0"
    by (auto simp: set_present_def split: sum.splits)
  have "length data = length data0" using data by simp
  moreover have "length row = n \<and> set row \<subseteq> {0, 1} \<and>
            (\<forall>p \<in> set present. \<exists>c. column n p = Inr c \<and> c < n \<and> row ! c = 1)"
    if "row \<in> set data" for row
  proof -
    from that data obtain row0 where row0: "row0 \<in> set data0"
      and row: "row = fold (\<lambda>c r. r[c := 1]) cs row0" by auto
    from assms(2) row0 have l0: "length row0 = n" and b0: "set row0 \<subseteq> {0, 1}" by auto
    have l: "length row = n" using row l0 by (simp add: fold_update_length)
    have b: "set row \<subseteq> {0, 1}"
      using fold_update_set [of 1 cs row0] b0 row by auto
    have "\<exists>c. column n p = Inr c \<and> c < n \<and> row ! c = 1" if "p \<in> set present" for p
    proof -
      from columns_total [OF cs that] obtain c where c: "column n p = Inr c" "c \<in> set cs" by blast
      with columns_sound [OF cs] have "c < n" by blast
      with c l0 row fold_update_nth [of c cs row0 1] show ?thesis by auto
    qed
    with l b show ?thesis by blast
  qed
  ultimately show ?thesis by blast
qed

subsection \<open>Argmax, stacking and permuting\<close>

lemma argmax_rows_sound:
  "argmax_rows preds = Inr ms \<Longrightarrow>
     length ms = length preds \<and> (\<forall>i < length preds. argmax (preds ! i) = Inr (ms ! i))"
proof (induction preds arbitrary: ms)
  case Nil
  then show ?case by simp
next
  case (Cons row rows)
  from Cons.prems obtain m ms' where m: "argmax row = Inr m" and ms': "argmax_rows rows = Inr ms'"
    and ms: "ms = m # ms'"
    by (auto split: sum.splits)
  from Cons.IH [OF ms'] m ms show ?case
    by (auto simp: nth_Cons split: nat.splits)
qed

lemma stack_sound:
  "stack ts = Inr t \<Longrightarrow> ts \<noteq> [] \<and> shape t = length ts # shape (hd ts) \<and>
     (\<forall>i. elem t i = elem (ts ! (i ! 0)) (tl i))"
  by (auto simp: stack_def split: list.splits if_splits)

lemma permute_0312:
  "permute [0, 3, 1, 2] t = Inr b \<Longrightarrow>
     length (shape t) = 4 \<and>
     shape b = [shape t ! 0, shape t ! 3, shape t ! 1, shape t ! 2] \<and>
     (\<forall>n c r x. elem b [n, c, r, x] = elem t [n, r, x, c])"
proof -
  assume a: "permute [0, 3, 1, 2] t = Inr b"
  then have s: "sort [0, 3, 1, 2] = [0..<length (shape t)]"
    by (simp add: permute_def split: if_splits)
  then have "length (sort [0::nat, 3, 1, 2]) = length [0..<length (shape t)]" by simp
  then have l: "length (shape t) = 4" by simp
  from a s have b: "b = \<lparr>shape = map (\<lambda>d. shape t ! d) [0, 3, 1, 2],
      elem = (\<lambda>i. elem t (map (\<lambda>d. i ! position d [0, 3, 1, 2]) [0..<length [0::nat, 3, 1, 2]]))\<rparr>"
    by (simp add: permute_def split: if_splits)
  have u: "[0..<4] = [0, 1, 2, 3::nat]" by (simp add: upt_rec)
  have "\<forall>n c r x. elem b [n, c, r, x] = elem t [n, r, x, c]"
    unfolding b by (simp add: position_def u)
  with l b show ?thesis by simp
qed

lemma permute_201:
  "permute [2, 0, 1] t = Inr b \<Longrightarrow>
     length (shape t) = 3 \<and>
     shape b = [shape t ! 2, shape t ! 0, shape t ! 1] \<and>
     (\<forall>c r k. elem b [c, r, k] = elem t [r, k, c])"
proof -
  assume a: "permute [2, 0, 1] t = Inr b"
  from permute_length [OF a] have l: "length (shape t) = 3" by simp
  from a have b: "b = \<lparr>shape = map (\<lambda>d. shape t ! d) [2, 0, 1],
      elem = (\<lambda>i. elem t (map (\<lambda>d. i ! position d [2, 0, 1]) [0..<length [2::nat, 0, 1]]))\<rparr>"
    by (simp add: permute_def split: if_splits)
  have u: "[0..<3] = [0, 1, 2::nat]" by (simp add: upt_rec)
  have "\<forall>c r k. elem b [c, r, k] = elem t [r, k, c]"
    unfolding b by (simp add: position_def u)
  with l b show ?thesis by simp
qed

subsection \<open>The steps behind an outcome\<close>

lemma sample_returns_inv:
  assumes "ImageSampler_sample self present num_samples w = (w', self', Inr res)"
  shows "\<exists>w0 data0 data w1 imgs samples batch preds preds_max.
     0 \<le> num_samples \<and>
     randint2 (nat num_samples) (n_features self) w = (w0, data0) \<and>
     set_present (n_features self) present data0 = Inr data \<and>
     generate_images self data w0 = (w1, Inr imgs) \<and>
     stack (map (tensors w1) imgs) = Inr samples \<and>
     permute [0, 3, 1, 2] samples = Inr batch \<and>
     w' = w1\<lparr>calls := calls w1 @ [batch]\<rparr> \<and> self' = self \<and>
     predict_fn self batch = Inr preds \<and> argmax_rows preds = Inr preds_max \<and>
     res = (segments self, data, map (\<lambda>m. if m = label self then 1 else 0) preds_max)"
  using assms
  by (auto simp: ImageSampler_sample_def Let_def split: if_splits sum.splits prod.splits)

lemma sample_effects:
  assumes "ImageSampler_sample self present num_samples w = (w', self', r)"
  shows "self' = self \<and> fresh w \<le> fresh w' \<and> (\<forall>a. a < fresh w \<longrightarrow> tensors w' a = tensors w a) \<and>
     ((\<exists>e. r = Inl e) \<and> calls w' = calls w \<or>
      (\<exists>w0 data0 data w1 imgs samples batch.
         randint2 (nat num_samples) (n_features self) w = (w0, data0) \<and>
         set_present (n_features self) present data0 = Inr data \<and>
         generate_images self data w0 = (w1, Inr imgs) \<and>
         stack (map (tensors w1) imgs) = Inr samples \<and>
         permute [0, 3, 1, 2] samples = Inr batch \<and>
         calls w' = calls w @ [batch] \<and> tensors w' = tensors w1))"
proof (cases "num_samples < 0")
  case True
  with assms show ?thesis by (auto simp: ImageSampler_sample_def)
next
  case nonneg: False
  obtain w0 data0 where rd: "randint2 (nat num_samples) (n_features self) w = (w0, data0)"
    by (cases "randint2 (nat num_samples) (n_features self) w")
  note rw = randint2_world [OF rd]
  show ?thesis
  proof (cases "set_present (n_features self) present data0")
    case (Inl e)
    with assms nonneg rd have "w' = w0" "self' = self" "r = Inl e"
      by (simp_all add: ImageSampler_sample_def)
    with rw show ?thesis by simp
  next
    case data: (Inr data)
    obtain w1 r1 where gi: "generate_images self data w0 = (w1, r1)"
      by (cases "generate_images self data w0")
    note gf = generate_images_frame [OF gi]
    have frame1: "fresh w \<le> fresh w1 \<and> (\<forall>a. a < fresh w \<longrightarrow> tensors w1 a = tensors w a) \<and>
        calls w1 = calls w"
      using gf rw by simp
    show ?thesis
    proof (cases r1)
      case (Inl e)
      with assms nonneg rd data gi have "w' = w1" "self' = self" "r = Inl e"
        by (simp_all add: ImageSampler_sample_def)
      with frame1 show ?thesis by simp
    next
      case imgs: (Inr imgs)
      show ?thesis
      proof (cases "stack (map (tensors w1) imgs)")
        case (Inl e)
        with assms nonneg rd data gi imgs have "w' = w1" "self' = self" "r = Inl e"
          by (simp_all add: ImageSampler_sample_def)
        with frame1 show ?thesis by simp
      next
        case samples: (Inr samples)
        show ?thesis
        proof (cases "permute [0, 3, 1, 2] samples")
          case (Inl e)
          with assms nonneg rd data gi imgs samples have "w' = w1" "self' = self" "r = Inl e"
            by (simp_all add: ImageSampler_sample_def)
          with frame1 show ?thesis by simp
        next
          case batch: (Inr batch)
          from assms nonneg rd data gi imgs samples batch
          have "w' = w1\<lparr>calls := calls w1 @ [batch]\<rparr> \<and> self' = self"
            by (auto simp: ImageSampler_sample_def Let_def split: sum.splits)
          then have w': "fresh w' = fresh w1" "tensors w' = tensors w1"
            "calls w' = calls w1 @ [batch]" "self' = self"
            by simp_all
          have "\<exists>w0 data0 data w1 imgs samples batch.
             randint2 (nat num_samples) (n_features self) w = (w0, data0) \<and>
             set_present (n_features self) present data0 = Inr data \<and>
             generate_images self data w0 = (w1, Inr imgs) \<and>
             stack (map (tensors w1) imgs) = Inr samples \<and>
             permute [0, 3, 1, 2] samples = Inr batch \<and>
             calls w' = calls w @ [batch] \<and> tensors w' = tensors w1"
            using rd data gi imgs samples batch w' frame1 by auto
          with w' frame1 show ?thesis by simp
        qed
      qed
    qed
  qed
qed

lemma init_returns_inv:
  assumes "ImageSampler_init x input predict kwargs w = (w1, Inr self)"
  shows "\<exists>chw row rows w0 w2.
     2 < length (shape (tensors w input)) \<and> shape (tensors w input) ! 2 = 3 \<and>
     permute [2, 0, 1] (tensors w input) = Inr chw \<and>
     w0 = w\<lparr>calls := calls w @ [unsqueeze0 chw]\<rparr> \<and>
     predict (unsqueeze0 chw) = Inr (row # rows) \<and> argmax row = Inr (label self) \<and>
     clone input w0 = (w2, sp_image self) \<and>
     fill_superpixels x (quickshift x (tensors w input))
       (unique (quickshift x (tensors w input))) (sp_image self) w2 = (w1, Inr ()) \<and>
     segments self = quickshift x (tensors w input) \<and>
     n_features self = length (unique (quickshift x (tensors w input))) \<and>
     image_ref self = input \<and> predict_fn self = predict"
  using assms
  by (auto simp: ImageSampler_init_def Let_def
      split: if_splits sum.splits list.splits prod.splits)

lemma sample_label_use:
  assumes "ImageSampler_sample self present num_samples w = (w', self', r)"
  shows "label self' = label self \<and>
         (\<forall>segs data labels. r = Inr (segs, data, labels) \<longrightarrow>
            (\<exists>batch preds preds_max.
               predict_fn self batch = Inr preds \<and> argmax_rows preds = Inr preds_max \<and>
               labels = map (\<lambda>m. if m = label self then 1 else 0) preds_max))"
proof -
  from sample_effects [OF assms] have "label self' = label self" by simp
  moreover have "\<exists>batch preds preds_max.
               predict_fn self batch = Inr preds \<and> argmax_rows preds = Inr preds_max \<and>
               labels = map (\<lambda>m. if m = label self then 1 else 0) preds_max"
    if "r = Inr (segs, data, labels)" for segs data labels
  proof -
    from assms that
    have "ImageSampler_sample self present num_samples w = (w', self', Inr (segs, data, labels))"
      by simp
    from sample_returns_inv [OF this] show ?thesis by auto
  qed
  ultimately show ?thesis by blast
qed

subsection \<open>The concrete run\<close>

lemma example_init_eq:
  "ImageSampler_init example_ext 0 example_predict ([] :: (string \<times> unit) list) example_start
     = (example_world, Inr example_sampler)"
  by (simp add: ImageSampler_init_def example_start_def example_image_def example_ext_def
      example_predict_def example_world_def example_sampler_def permute_def unsqueeze0_def
      argmax_def unique_def clone_def fill_superpixel_def Let_def position_def fun_eq_iff)

lemma example_sample:
  assumes "ImageSampler_sample example_sampler [0] 2 example_world = (w', self', r)"
  shows "r = Inr (segments example_sampler, [[1], [1]], [1, 1])"
proof -
  have u: "[0..<2] = [0, Suc 0]" by (simp add: upt_rec)
  from assms show ?thesis
    by (auto simp: ImageSampler_sample_def randint2_def set_present_def column_def
        generate_image_def clone_def zero_features_def segment_mask_def masked_assign_def
        stack_def permute_def position_def example_world_def example_sampler_def
        example_image_def example_predict_def argmax_def Let_def u)
qed

section \<open>The label-match vector\<close>

text \<open>
  Claim C3: when \<^verbatim>\<open>ImageSampler.sample\<close> returns, the call has handed one batch to
  the predict function, the label-match vector has one entry for every row of scores
  that came back, and entry \<open>i\<close> is 1 exactly when the argmax of row \<open>i\<close> is the
  label stored in the sampler, and 0 exactly when it is not.
\<close>

theorem sample_labels_match:
  assumes "ImageSampler_sample self present num_samples w = (w', self', Inr (segs, data, labels))"
  shows "\<exists>batch preds.
           calls w' = calls w @ [batch] \<and> predict_fn self batch = Inr preds \<and>
           length labels = length preds \<and>
           (\<forall>i < length labels.
              (labels ! i = 1 \<longleftrightarrow> argmax (preds ! i) = Inr (label self)) \<and>
              (labels ! i = 0 \<longleftrightarrow> argmax (preds ! i) \<noteq> Inr (label self)))"
proof -
  from sample_returns_inv [OF assms]
  obtain w0 data0 data' w1 imgs samples batch preds preds_max where
    rd: "randint2 (nat num_samples) (n_features self) w = (w0, data0)"
    and gi: "generate_images self data' w0 = (w1, Inr imgs)"
    and w': "w' = w1\<lparr>calls := calls w1 @ [batch]\<rparr>"
    and pr: "predict_fn self batch = Inr preds"
    and am: "argmax_rows preds = Inr preds_max"
    and res: "(segs, data, labels) =
       (segments self, data', map (\<lambda>m. if m = label self then 1 else 0) preds_max)"
    by blast
  from randint2_world [OF rd] generate_images_frame [OF gi] w'
  have c: "calls w' = calls w @ [batch]" by simp
  note a = argmax_rows_sound [OF am]
  from res have l: "labels = map (\<lambda>m. if m = label self then 1 else 0) preds_max" by simp
  have "length labels = length preds" using l a by simp
  moreover have "(labels ! i = 1 \<longleftrightarrow> argmax (preds ! i) = Inr (label self)) \<and>
                 (labels ! i = 0 \<longleftrightarrow> argmax (preds ! i) \<noteq> Inr (label self))"
    if "i < length labels" for i
    using that l a by auto
  ultimately show ?thesis using c pr by blast
qed

text \<open>
  The theorem at the concrete run: two samples, both scored for class 1, the stored
  label.
\<close>

theorem sample_labels_match_witness:
  "\<exists>w'. ImageSampler_sample example_sampler [0] 2 example_world =
          (w', example_sampler, Inr (segments example_sampler, [[1], [1]], [1, 1])) \<and>
        (\<exists>batch preds.
           calls w' = calls example_world @ [batch] \<and>
           predict_fn example_sampler batch = Inr preds \<and> length preds = 2 \<and>
           argmax (preds ! 0) = Inr (label example_sampler) \<and>
           argmax (preds ! 1) = Inr (label example_sampler))"
proof -
  obtain w' self' r where e: "ImageSampler_sample example_sampler [0] 2 example_world = (w', self', r)"
    by (cases "ImageSampler_sample example_sampler [0] 2 example_world")
  from sample_effects [OF e] have s: "self' = example_sampler" by simp
  from example_sample [OF e] s e
  have e': "ImageSampler_sample example_sampler [0] 2 example_world =
          (w', example_sampler, Inr (segments example_sampler, [[1], [1]], [1, 1]))"
    by simp
  from sample_labels_match [OF e'] obtain batch preds where
    b: "calls w' = calls example_world @ [batch]" "predict_fn example_sampler batch = Inr preds"
      "length [1, 1 :: int] = length preds"
    and a: "\<forall>i < length [1, 1 :: int].
         ([1, 1 :: int] ! i = 1 \<longleftrightarrow> argmax (preds ! i) = Inr (label example_sampler)) \<and>
         ([1, 1 :: int] ! i = 0 \<longleftrightarrow> argmax (preds ! i) \<noteq> Inr (label example_sampler))"
    by blast
  from a have "argmax (preds ! 0) = Inr (label example_sampler)" by auto
  moreover from a have "argmax (preds ! 1) = Inr (label example_sampler)" by auto
  ultimately show ?thesis using e' b by auto
qed

section \<open>The label of the original instance\<close>

text \<open>
  Claim C6: a construction that succeeds has called the predict function exactly once,
  on a batch of one sample that holds the original instance with the channels first;
  the stored label is the argmax of the first row of scores of that call; and every
  later call of \<^verbatim>\<open>sample\<close>, in whatever world, leaves the label as it is and compares
  the argmax of the scores of its own batch with that stored label.
\<close>

theorem label_fixed_at_construction:
  assumes "ImageSampler_init x input predict kwargs w = (w1, Inr self)"
  shows "(\<exists>batch row rows.
            calls w1 = calls w @ [batch] \<and>
            shape batch = [1, 3, shape (tensors w input) ! 0, shape (tensors w input) ! 1] \<and>
            (\<forall>c r k. elem batch [0, c, r, k] = elem (tensors w input) [r, k, c]) \<and>
            predict batch = Inr (row # rows) \<and> argmax row = Inr (label self)) \<and>
         predict_fn self = predict \<and>
         (\<forall>present num_samples w2 w3 self' r.
            ImageSampler_sample self present num_samples w2 = (w3, self', r) \<longrightarrow>
              label self' = label self \<and>
              (\<forall>segs data labels. r = Inr (segs, data, labels) \<longrightarrow>
                 (\<exists>batch preds preds_max.
                    predict batch = Inr preds \<and> argmax_rows preds = Inr preds_max \<and>
                    labels = map (\<lambda>m. if m = label self then 1 else 0) preds_max)))"
proof -
  from init_returns_inv [OF assms]
  obtain chw row rows w0 w2 where
    ch: "shape (tensors w input) ! 2 = 3"
    and p: "permute [2, 0, 1] (tensors w input) = Inr chw"
    and w0: "w0 = w\<lparr>calls := calls w @ [unsqueeze0 chw]\<rparr>"
    and pr: "predict (unsqueeze0 chw) = Inr (row # rows)" and am: "argmax row = Inr (label self)"
    and cl: "clone input w0 = (w2, sp_image self)"
    and fs: "fill_superpixels x (quickshift x (tensors w input))
       (unique (quickshift x (tensors w input))) (sp_image self) w2 = (w1, Inr ())"
    and pf: "predict_fn self = predict"
    by blast
  from cl have "calls w2 = calls w0" by (auto simp: clone_def)
  with fill_superpixels_frame [OF fs] w0 have c: "calls w1 = calls w @ [unsqueeze0 chw]" by simp
  note pm = permute_201 [OF p]
  have sh: "shape (unsqueeze0 chw) = [1, 3, shape (tensors w input) ! 0, shape (tensors w input) ! 1]"
    using pm ch by (simp add: unsqueeze0_def)
  have el: "\<forall>c r k. elem (unsqueeze0 chw) [0, c, r, k] = elem (tensors w input) [r, k, c]"
    using pm by (simp add: unsqueeze0_def)
  have first: "\<exists>batch row rows.
            calls w1 = calls w @ [batch] \<and>
            shape batch = [1, 3, shape (tensors w input) ! 0, shape (tensors w input) ! 1] \<and>
            (\<forall>c r k. elem batch [0, c, r, k] = elem (tensors w input) [r, k, c]) \<and>
            predict batch = Inr (row # rows) \<and> argmax row = Inr (label self)"
    using c sh el pr am by blast
  have later: "label self' = label self \<and>
              (\<forall>segs data labels. r = Inr (segs, data, labels) \<longrightarrow>
                 (\<exists>batch preds preds_max.
                    predict batch = Inr preds \<and> argmax_rows preds = Inr preds_max \<and>
                    labels = map (\<lambda>m. if m = label self then 1 else 0) preds_max))"
    if "ImageSampler_sample self present num_samples w2 = (w3, self', r)"
    for present num_samples w2 w3 self' r
    using sample_label_use [OF that] pf by simp
  from first pf later show ?thesis by blast
qed

text \<open>
  The theorem at the concrete run: the construction and one call of \<^verbatim>\<open>sample\<close>.
\<close>

theorem label_fixed_at_construction_witness:
  "ImageSampler_init example_ext 0 example_predict ([] :: (string \<times> unit) list) example_start
     = (example_world, Inr example_sampler) \<and>
   (\<exists>batch row rows.
      calls example_world = calls example_start @ [batch] \<and> shape batch = [1, 3, 1, 1] \<and>
      example_predict batch = Inr (row # rows) \<and> argmax row = Inr (label example_sampler)) \<and>
   (\<exists>w'. ImageSampler_sample example_sampler [0] 2 example_world =
          (w', example_sampler, Inr (segments example_sampler, [[1], [1]], [1, 1])) \<and>
        (\<exists>batch preds preds_max.
           example_predict batch = Inr preds \<and> argmax_rows preds = Inr preds_max \<and>
           [1, 1] = map (\<lambda>m. if m = label example_sampler then 1 else (0::int)) preds_max))"
proof -
  note i = example_init_eq
  note t = label_fixed_at_construction [OF i]
  obtain w' self' r where e: "ImageSampler_sample example_sampler [0] 2 example_world = (w', self', r)"
    by (cases "ImageSampler_sample example_sampler [0] 2 example_world")
  from sample_effects [OF e] have s: "self' = example_sampler" by simp
  from example_sample [OF e] s e
  have e': "ImageSampler_sample example_sampler [0] 2 example_world =
          (w', example_sampler, Inr (segments example_sampler, [[1], [1]], [1, 1]))"
    by simp
  from t have first: "\<exists>batch row rows.
      calls example_world = calls example_start @ [batch] \<and> shape batch = [1, 3, 1, 1] \<and>
      example_predict batch = Inr (row # rows) \<and> argmax row = Inr (label example_sampler)"
    by (auto simp: example_start_def example_image_def)
  from t e' have "\<exists>batch preds preds_max.
           example_predict batch = Inr preds \<and> argmax_rows preds = Inr preds_max \<and>
           [1, 1] = map (\<lambda>m. if m = label example_sampler then 1 else (0::int)) preds_max"
    by blast
  with e' have third: "\<exists>w'. ImageSampler_sample example_sampler [0] 2 example_world =
          (w', example_sampler, Inr (segments example_sampler, [[1], [1]], [1, 1])) \<and>
        (\<exists>batch preds preds_max.
           example_predict batch = Inr preds \<and> argmax_rows preds = Inr preds_max \<and>
           [1, 1] = map (\<lambda>m. if m = label example_sampler then 1 else (0::int)) preds_max)"
    by (intro exI [of _ w'] conjI)
  show ?thesis
    by (intro conjI) (rule i, rule first, rule third)
qed

section \<open>\<^verbatim>\<open>sample\<close> leaves the sampler as it is\<close>

lemma init_allocates:
  assumes "ImageSampler_init x input predict kwargs w = (w1, Inr self)"
  shows "image_ref self = input \<and> sp_image self = fresh w \<and> fresh w1 = Suc (fresh w) \<and>
         segments self = quickshift x (tensors w input)"
proof -
  from init_returns_inv [OF assms]
  obtain chw w0 w2 where
    w0: "w0 = w\<lparr>calls := calls w @ [unsqueeze0 chw]\<rparr>"
    and cl: "clone input w0 = (w2, sp_image self)"
    and fs: "fill_superpixels x (quickshift x (tensors w input))
       (unique (quickshift x (tensors w input))) (sp_image self) w2 = (w1, Inr ())"
    and rest: "segments self = quickshift x (tensors w input)" "image_ref self = input"
    by blast
  from cl w0 have "sp_image self = fresh w" "fresh w2 = Suc (fresh w)"
    by (auto simp: clone_def)
  with fill_superpixels_frame [OF fs] rest show ?thesis by simp
qed

text \<open>
  Claim C10: take a sampler that \<^verbatim>\<open>__init__\<close> has built from an allocated input, and
  any later world (one that still holds what the constructor allocated). Whatever the
  outcome of a call of \<^verbatim>\<open>sample\<close>, the object is the same afterwards, field by field,
  and the two image tensors it refers to hold what they held before: the images are
  cloned before they are written. When the call returns, its first component is the
  segmentation that the constructor computed from the input.
\<close>

theorem sample_leaves_sampler_unchanged:
  assumes init: "ImageSampler_init x input predict kwargs w0 = (w1, Inr self)"
    and allocated: "input < fresh w0"
    and later: "fresh w1 \<le> fresh w"
    and call: "ImageSampler_sample self present num_samples w = (w', self', r)"
  shows "self' = self \<and>
         label self' = label self \<and> segments self' = segments self \<and>
         n_features self' = n_features self \<and> sp_image self' = sp_image self \<and>
         image_ref self' = image_ref self \<and> predict_fn self' = predict_fn self \<and>
         tensors w' (image_ref self) = tensors w (image_ref self) \<and>
         tensors w' (sp_image self) = tensors w (sp_image self) \<and>
         (\<forall>segs data labels. r = Inr (segs, data, labels) \<longrightarrow>
            segs = segments self \<and> segs = quickshift x (tensors w0 input))"
proof -
  note a = init_allocates [OF init]
  from a allocated later have refs: "image_ref self < fresh w" "sp_image self < fresh w"
    by simp_all
  note e = sample_effects [OF call]
  from e have same: "self' = self" by simp
  from e refs have store: "tensors w' (image_ref self) = tensors w (image_ref self)"
    "tensors w' (sp_image self) = tensors w (sp_image self)"
    by simp_all
  have "segs = segments self \<and> segs = quickshift x (tensors w0 input)"
    if "r = Inr (segs, data, labels)" for segs data labels
  proof -
    from call that
    have "ImageSampler_sample self present num_samples w = (w', self', Inr (segs, data, labels))"
      by simp
    from sample_returns_inv [OF this] have "segs = segments self" by auto
    with a show ?thesis by simp
  qed
  with same store show ?thesis by simp
qed

text \<open>
  The theorem at the concrete run.
\<close>

theorem sample_leaves_sampler_unchanged_witness:
  "ImageSampler_init example_ext 0 example_predict ([] :: (string \<times> unit) list) example_start
     = (example_world, Inr example_sampler) \<and>
   0 < fresh example_start \<and> fresh example_world \<le> fresh example_world \<and>
   (\<exists>w'. ImageSampler_sample example_sampler [0] 2 example_world =
          (w', example_sampler, Inr (segments example_sampler, [[1], [1]], [1, 1])) \<and>
        tensors w' (image_ref example_sampler) = tensors example_world (image_ref example_sampler) \<and>
        tensors w' (sp_image example_sampler) = tensors example_world (sp_image example_sampler) \<and>
        segments example_sampler = quickshift example_ext (tensors example_start 0))"
proof -
  note i = example_init_eq
  have f: "0 < fresh example_start" by (simp add: example_start_def)
  obtain w' self' r where e: "ImageSampler_sample example_sampler [0] 2 example_world = (w', self', r)"
    by (cases "ImageSampler_sample example_sampler [0] 2 example_world")
  note t = sample_leaves_sampler_unchanged [OF i f order_refl e]
  from example_sample [OF e] have r: "r = Inr (segments example_sampler, [[1], [1]], [1, 1])" .
  from t e r
  have e': "ImageSampler_sample example_sampler [0] 2 example_world =
          (w', example_sampler, Inr (segments example_sampler, [[1], [1]], [1, 1]))"
    by simp
  from t r have q: "segments example_sampler = quickshift example_ext (tensors example_start 0)"
    by simp
  from t e' q have "\<exists>w'. ImageSampler_sample example_sampler [0] 2 example_world =
          (w', example_sampler, Inr (segments example_sampler, [[1], [1]], [1, 1])) \<and>
        tensors w' (image_ref example_sampler) = tensors example_world (image_ref example_sampler) \<and>
        tensors w' (sp_image example_sampler) = tensors example_world (sp_image example_sampler) \<and>
        segments example_sampler = quickshift example_ext (tensors example_start 0)"
    by (intro exI [of _ w']) simp
  with i f show ?thesis by simp
qed

section \<open>Predict calls of \<^verbatim>\<open>sample\<close>\<close>

lemma set_present_length:
  "set_present n present data0 = Inr data \<Longrightarrow> length data = length data0"
  by (auto simp: set_present_def split: sum.splits)

lemma batch_slices:
  assumes s: "stack ts = Inr samples" and p: "permute [0, 3, 1, 2] samples = Inr batch"
  shows "ts \<noteq> [] \<and> shape batch ! 0 = length ts \<and>
         (\<forall>i c r k. elem batch [i, c, r, k] = elem (ts ! i) [r, k, c])"
proof -
  note st = stack_sound [OF s]
  note pm = permute_0312 [OF p]
  from st pm show ?thesis by simp
qed

lemma set_present_in_range:
  assumes "set_present n present data0 = Inr data" and "p \<in> set present"
  shows "- int n \<le> p \<and> p < int n"
proof -
  from assms(1) obtain cs where "columns n present = Inr cs"
    by (auto simp: set_present_def split: sum.splits)
  from columns_total [OF this assms(2)] obtain c where "column n p = Inr c" by blast
  then show ?thesis by (auto simp: column_def split: if_splits)
qed

lemma generate_image_content:
  assumes "generate_image self feature_mask w = (w', Inr img)"
    and "image_ref self < fresh w" and "sp_image self < fresh w"
  shows "tensors w' img =
           masked_assign (length (shape (segments self)))
             (segment_mask (segments self) (zero_features feature_mask))
             (tensors w (sp_image self)) (tensors w (image_ref self))"
  using assms
  by (auto simp: generate_image_def clone_def Let_def split: if_splits)

lemma generate_images_content:
  "generate_images self data w = (w', Inr imgs) \<Longrightarrow>
   image_ref self < fresh w \<Longrightarrow> sp_image self < fresh w \<Longrightarrow>
     (\<forall>i < length data. tensors w' (imgs ! i) =
           masked_assign (length (shape (segments self)))
             (segment_mask (segments self) (zero_features (data ! i)))
             (tensors w (sp_image self)) (tensors w (image_ref self)))"
proof (induction data arbitrary: w w' imgs)
  case Nil
  then show ?case by simp
next
  case (Cons feature_mask rest)
  obtain w1 r1 where g1: "generate_image self feature_mask w = (w1, r1)"
    by (cases "generate_image self feature_mask w")
  note f1 = generate_image_frame [OF g1]
  from Cons.prems(1) g1 obtain img where r1: "r1 = Inr img"
    by (cases r1) auto
  obtain w2 r2 where g2: "generate_images self rest w1 = (w2, r2)"
    by (cases "generate_images self rest w1")
  note f2 = generate_images_frame [OF g2]
  from Cons.prems(1) g1 r1 g2 obtain imgs' where r2: "r2 = Inr imgs'"
    by (cases r2) auto
  from Cons.prems(1) g1 r1 g2 r2 have w': "w' = w2" and imgs: "imgs = img # imgs'" by auto
  from f1 r1 have img: "img = fresh w" by simp
  from f1 Cons.prems(2,3) have keep:
    "tensors w1 (sp_image self) = tensors w (sp_image self)"
    "tensors w1 (image_ref self) = tensors w (image_ref self)"
    "image_ref self < fresh w1" "sp_image self < fresh w1"
    by simp_all
  from g2 r2 have g2': "generate_images self rest w1 = (w2, Inr imgs')" by simp
  note ih = Cons.IH [OF g2' keep(3) keep(4)]
  from g1 r1 have g1': "generate_image self feature_mask w = (w1, Inr img)" by simp
  note c1 = generate_image_content [OF g1' Cons.prems(2) Cons.prems(3)]
  from f2 f1 img have "tensors w2 img = tensors w1 img" by simp
  with c1 have first: "tensors w2 img =
           masked_assign (length (shape (segments self)))
             (segment_mask (segments self) (zero_features feature_mask))
             (tensors w (sp_image self)) (tensors w (image_ref self))" by simp
  show ?case
  proof (intro allI impI)
    fix i assume i: "i < length (feature_mask # rest)"
    show "tensors w' (imgs ! i) =
           masked_assign (length (shape (segments self)))
             (segment_mask (segments self) (zero_features ((feature_mask # rest) ! i)))
             (tensors w (sp_image self)) (tensors w (image_ref self))"
    proof (cases i)
      case 0
      with first w' imgs show ?thesis by simp
    next
      case (Suc j)
      with i have "j < length rest" by simp
      with ih have "tensors w2 (imgs' ! j) =
           masked_assign (length (shape (segments self)))
             (segment_mask (segments self) (zero_features (rest ! j)))
             (tensors w1 (sp_image self)) (tensors w1 (image_ref self))" by blast
      with Suc w' imgs keep(1,2) show ?thesis by simp
    qed
  qed
qed

text \<open>
  Claim C4, as the code has it: a call of \<^verbatim>\<open>ImageSampler.sample\<close> either raises
  before the predict function is reached and calls it not at all, or calls it exactly
  once. In the second case \<open>num_samples\<close> is positive; the mask is the one that
  \<^verbatim>\<open>torch.randint\<close> drew, with the columns of the present ids set to 1, and it is
  the mask that the call returns when it returns; the batch has \<open>num_samples\<close>
  entries, and entry \<open>i\<close> is, with the channels first, the image that
  \<^verbatim>\<open>__generate_image\<close> made for row \<open>i\<close> of that mask. When the image and the
  superpixel image of the sampler are tensors of the store, that entry is the stored
  image with the superpixels of the features that are 0 in row \<open>i\<close> taken from the
  superpixel image. A call that returns is of the second kind; a call with
  \<open>num_samples \<le> 0\<close>, or with a present id outside \<open>-n_features \<le> p < n_features\<close>,
  is of the first. The \<^verbatim>\<open>sample\<close> of the tabular and of the text sampler returns
  \<^verbatim>\<open>None\<close> and leaves the world, and with it the log of predict calls, as it was.
\<close>

theorem sample_predict_calls:
  assumes "ImageSampler_sample self present num_samples w = (w', self', r)"
  shows "((\<exists>e. r = Inl e) \<and> calls w' = calls w \<or>
          (\<exists>batch w0 data0 data w1 imgs samples.
             0 < num_samples \<and>
             randint2 (nat num_samples) (n_features self) w = (w0, data0) \<and>
             set_present (n_features self) present data0 = Inr data \<and>
             length data = nat num_samples \<and>
             generate_images self data w0 = (w1, Inr imgs) \<and>
             length imgs = nat num_samples \<and> tensors w' = tensors w1 \<and>
             stack (map (tensors w1) imgs) = Inr samples \<and>
             permute [0, 3, 1, 2] samples = Inr batch \<and>
             calls w' = calls w @ [batch] \<and> shape batch ! 0 = nat num_samples \<and>
             (\<forall>i < nat num_samples. \<forall>c y x.
                elem batch [i, c, y, x] = elem (tensors w' (imgs ! i)) [y, x, c]) \<and>
             (image_ref self < fresh w \<and> sp_image self < fresh w \<longrightarrow>
                (\<forall>i < nat num_samples. \<forall>c y x.
                   elem batch [i, c, y, x] =
                     elem (masked_assign (length (shape (segments self)))
                             (segment_mask (segments self) (zero_features (data ! i)))
                             (tensors w (sp_image self)) (tensors w (image_ref self)))
                          [y, x, c])) \<and>
             (\<forall>segs d labels. r = Inr (segs, d, labels) \<longrightarrow> d = data))) \<and>
         ((\<exists>res. r = Inr res) \<longrightarrow> (\<exists>batch. calls w' = calls w @ [batch])) \<and>
         (num_samples \<le> 0 \<longrightarrow> (\<exists>e. r = Inl e) \<and> calls w' = calls w) \<and>
         ((\<exists>p \<in> set present. p < - int (n_features self) \<or> int (n_features self) \<le> p) \<longrightarrow>
            (\<exists>e. r = Inl e) \<and> calls w' = calls w) \<and>
         Sampler_sample (TabularSampler :: ('v, 's::linorder) Sampler) present num_samples w
           = (w, TabularSampler, Inr None) \<and>
         Sampler_sample (TextSampler :: ('v, 's::linorder) Sampler) present num_samples w
           = (w, TextSampler, Inr None)"
proof -
  have stubs:
    "Sampler_sample (TabularSampler :: ('v, 's::linorder) Sampler) present num_samples w
       = (w, TabularSampler, Inr None)"
    "Sampler_sample (TextSampler :: ('v, 's::linorder) Sampler) present num_samples w
       = (w, TextSampler, Inr None)"
    by (simp_all add: TabularSampler_sample_def TextSampler_sample_def)
  from sample_effects [OF assms]
  consider (early) "(\<exists>e. r = Inl e) \<and> calls w' = calls w"
    | (called) w0 data0 data w1 imgs samples batch where
      "randint2 (nat num_samples) (n_features self) w = (w0, data0)"
      "set_present (n_features self) present data0 = Inr data"
      "generate_images self data w0 = (w1, Inr imgs)"
      "stack (map (tensors w1) imgs) = Inr samples"
      "permute [0, 3, 1, 2] samples = Inr batch"
      "calls w' = calls w @ [batch]" "tensors w' = tensors w1"
    by blast
  then show ?thesis
  proof cases
    case early
    with stubs show ?thesis by auto
  next
    case called
    note rw = randint2_world [OF called(1)]
    from randint2_data [OF called(1)] set_present_length [OF called(2)]
    have ld: "length data = nat num_samples" by simp
    from generate_images_frame [OF called(3)] ld
    have li: "length imgs = nat num_samples" by simp
    note bs = batch_slices [OF called(4) called(5)]
    from bs have "0 < length imgs" by simp
    with li have pos: "0 < num_samples" by (cases "0 < num_samples") simp_all
    from bs li have sh: "shape batch ! 0 = nat num_samples" by simp
    have el: "\<forall>i < nat num_samples. \<forall>c r k.
                elem batch [i, c, r, k] = elem (tensors w' (imgs ! i)) [r, k, c]"
      using bs li called(7) by simp
    have px: "image_ref self < fresh w \<and> sp_image self < fresh w \<longrightarrow>
                (\<forall>i < nat num_samples. \<forall>c r k.
                   elem batch [i, c, r, k] =
                     elem (masked_assign (length (shape (segments self)))
                             (segment_mask (segments self) (zero_features (data ! i)))
                             (tensors w (sp_image self)) (tensors w (image_ref self)))
                          [r, k, c])"
    proof (intro impI allI)
      fix i c r' k
      assume a: "image_ref self < fresh w \<and> sp_image self < fresh w" and i: "i < nat num_samples"
      from a rw have a0: "image_ref self < fresh w0" "sp_image self < fresh w0" by simp_all
      from generate_images_content [OF called(3) a0] i ld
      have "tensors w1 (imgs ! i) =
              masked_assign (length (shape (segments self)))
                (segment_mask (segments self) (zero_features (data ! i)))
                (tensors w0 (sp_image self)) (tensors w0 (image_ref self))" by simp
      with rw called(7) el i
      show "elem batch [i, c, r', k] =
              elem (masked_assign (length (shape (segments self)))
                      (segment_mask (segments self) (zero_features (data ! i)))
                      (tensors w (sp_image self)) (tensors w (image_ref self)))
                   [r', k, c]" by simp
    qed
    have ret: "\<forall>segs d labels. r = Inr (segs, d, labels) \<longrightarrow> d = data"
    proof (intro allI impI)
      fix segs d labels assume "r = Inr (segs, d, labels)"
      with assms have "ImageSampler_sample self present num_samples w = (w', self', Inr (segs, d, labels))"
        by simp
      from sample_returns_inv [OF this] called(1) called(2) show "d = data" by auto
    qed
    have second: "\<exists>batch w0 data0 data w1 imgs samples.
             0 < num_samples \<and>
             randint2 (nat num_samples) (n_features self) w = (w0, data0) \<and>
             set_present (n_features self) present data0 = Inr data \<and>
             length data = nat num_samples \<and>
             generate_images self data w0 = (w1, Inr imgs) \<and>
             length imgs = nat num_samples \<and> tensors w' = tensors w1 \<and>
             stack (map (tensors w1) imgs) = Inr samples \<and>
             permute [0, 3, 1, 2] samples = Inr batch \<and>
             calls w' = calls w @ [batch] \<and> shape batch ! 0 = nat num_samples \<and>
             (\<forall>i < nat num_samples. \<forall>c r k.
                elem batch [i, c, r, k] = elem (tensors w' (imgs ! i)) [r, k, c]) \<and>
             (image_ref self < fresh w \<and> sp_image self < fresh w \<longrightarrow>
                (\<forall>i < nat num_samples. \<forall>c r k.
                   elem batch [i, c, r, k] =
                     elem (masked_assign (length (shape (segments self)))
                             (segment_mask (segments self) (zero_features (data ! i)))
                             (tensors w (sp_image self)) (tensors w (image_ref self)))
                          [r, k, c])) \<and>
             (\<forall>segs d labels. r = Inr (segs, d, labels) \<longrightarrow> d = data)"
      apply (rule exI [of _ batch], rule exI [of _ w0], rule exI [of _ data0],
             rule exI [of _ data], rule exI [of _ w1], rule exI [of _ imgs],
             rule exI [of _ samples])
      apply (intro conjI)
      apply (rule pos, rule called(1), rule called(2), rule ld, rule called(3), rule li,
             rule called(7), rule called(4), rule called(5), rule called(6), rule sh,
             rule el, rule px, rule ret)
      done
    from called(6) have third: "(\<exists>res. r = Inr res) \<longrightarrow> (\<exists>batch. calls w' = calls w @ [batch])"
      by blast
    from pos have fourth: "num_samples \<le> 0 \<longrightarrow> (\<exists>e. r = Inl e) \<and> calls w' = calls w" by simp
    have fifth: "(\<exists>p \<in> set present. p < - int (n_features self) \<or> int (n_features self) \<le> p) \<longrightarrow>
            (\<exists>e. r = Inl e) \<and> calls w' = calls w"
      using set_present_in_range [OF called(2)] by fastforce
    show ?thesis
      apply (intro conjI)
      apply (rule disjI2, rule second)
      apply (rule third, rule fourth, rule fifth, rule stubs(1), rule stubs(2))
      done
  qed
qed

lemma example_superpixels_kept:
  assumes "ImageSampler_sample example_sampler [0] 1 example_superpixels = (w', self', r)"
  shows "r = Inr (segments example_sampler, [[1]], [1])"
  using assms
  by (auto simp: ImageSampler_sample_def randint2_def set_present_def column_def
      generate_image_def clone_def zero_features_def segment_mask_def masked_assign_def
      stack_def permute_def position_def example_superpixels_def example_sampler_def
      example_image_def example_predict_def argmax_def Let_def)

lemma example_superpixels_replaced:
  assumes "ImageSampler_sample example_sampler [] 1 example_superpixels = (w', self', r)"
  shows "r = Inr (segments example_sampler, [[0]], [1])"
  using assms
  by (auto simp: ImageSampler_sample_def randint2_def set_present_def column_def
      generate_image_def clone_def zero_features_def segment_mask_def masked_assign_def
      stack_def permute_def position_def example_superpixels_def example_sampler_def
      example_image_def example_predict_def argmax_def Let_def)

lemma example_superpixels_pixels:
  "image_ref example_sampler < fresh example_superpixels \<and>
   sp_image example_sampler < fresh example_superpixels \<and>
   elem (masked_assign (length (shape (segments example_sampler)))
           (segment_mask (segments example_sampler) (zero_features ([[1]] ! 0)))
           (tensors example_superpixels (sp_image example_sampler))
           (tensors example_superpixels (image_ref example_sampler))) [0, 0, 0] = 7 \<and>
   elem (masked_assign (length (shape (segments example_sampler)))
           (segment_mask (segments example_sampler) (zero_features ([[0]] ! 0)))
           (tensors example_superpixels (sp_image example_sampler))
           (tensors example_superpixels (image_ref example_sampler))) [0, 0, 0] = 9"
  by (simp add: example_sampler_def example_superpixels_def example_image_def
      masked_assign_def segment_mask_def zero_features_def)

text \<open>
  The theorem at four concrete runs in a world where the superpixel image holds 9 and
  the image 7, and the generator draws 0. With the only feature present the mask row is
  forced to 1 and the predict function receives the pixel 7; with no feature present
  the row stays 0 and it receives the pixel 9. With \<open>num_samples = 0\<close>, and with the
  present id 1 where there is one feature, the call raises and the log is as before.
\<close>

theorem sample_predict_calls_witness:
  "(\<exists>w' batch.
      ImageSampler_sample example_sampler [0] 1 example_superpixels =
        (w', example_sampler, Inr (segments example_sampler, [[1]], [1])) \<and>
      calls w' = calls example_superpixels @ [batch] \<and> shape batch ! 0 = 1 \<and>
      elem batch [0, 0, 0, 0] = 7) \<and>
   (\<exists>w' batch.
      ImageSampler_sample example_sampler [] 1 example_superpixels =
        (w', example_sampler, Inr (segments example_sampler, [[0]], [1])) \<and>
      calls w' = calls example_superpixels @ [batch] \<and> shape batch ! 0 = 1 \<and>
      elem batch [0, 0, 0, 0] = 9) \<and>
   (\<exists>e. snd (snd (ImageSampler_sample example_sampler [0] 0 example_superpixels)) = Inl e) \<and>
   calls (fst (ImageSampler_sample example_sampler [0] 0 example_superpixels))
     = calls example_superpixels \<and>
   (\<exists>e. snd (snd (ImageSampler_sample example_sampler [1] 1 example_superpixels)) = Inl e) \<and>
   calls (fst (ImageSampler_sample example_sampler [1] 1 example_superpixels))
     = calls example_superpixels"
proof -
  note px = example_superpixels_pixels
  have kept: "\<exists>w' batch.
      ImageSampler_sample example_sampler [0] 1 example_superpixels =
        (w', example_sampler, Inr (segments example_sampler, [[1]], [1])) \<and>
      calls w' = calls example_superpixels @ [batch] \<and> shape batch ! 0 = 1 \<and>
      elem batch [0, 0, 0, 0] = 7"
  proof -
    obtain w' self' r where
      e: "ImageSampler_sample example_sampler [0] 1 example_superpixels = (w', self', r)"
      by (cases "ImageSampler_sample example_sampler [0] 1 example_superpixels")
    from sample_effects [OF e] have s: "self' = example_sampler" by simp
    from example_superpixels_kept [OF e]
    have r: "r = Inr (segments example_sampler, [[1]], [1])" .
    from sample_predict_calls [OF e] r px
    obtain batch data where
      b: "calls w' = calls example_superpixels @ [batch]" "shape batch ! 0 = nat 1"
      and d: "\<forall>segs d labels. r = Inr (segs, d, labels) \<longrightarrow> d = data"
      and p: "\<forall>i < nat 1. \<forall>c r k.
                   elem batch [i, c, r, k] =
                     elem (masked_assign (length (shape (segments example_sampler)))
                             (segment_mask (segments example_sampler) (zero_features (data ! i)))
                             (tensors example_superpixels (sp_image example_sampler))
                             (tensors example_superpixels (image_ref example_sampler)))
                          [r, k, c]"
      by auto
    from d r have "data = [[1]]" by simp
    with p px have "elem batch [0, 0, 0, 0] = 7" by simp
    with e s r b show ?thesis by auto
  qed
  have replaced: "\<exists>w' batch.
      ImageSampler_sample example_sampler [] 1 example_superpixels =
        (w', example_sampler, Inr (segments example_sampler, [[0]], [1])) \<and>
      calls w' = calls example_superpixels @ [batch] \<and> shape batch ! 0 = 1 \<and>
      elem batch [0, 0, 0, 0] = 9"
  proof -
    obtain w' self' r where
      e: "ImageSampler_sample example_sampler [] 1 example_superpixels = (w', self', r)"
      by (cases "ImageSampler_sample example_sampler [] 1 example_superpixels")
    from sample_effects [OF e] have s: "self' = example_sampler" by simp
    from example_superpixels_replaced [OF e]
    have r: "r = Inr (segments example_sampler, [[0]], [1])" .
    from sample_predict_calls [OF e] r px
    obtain batch data where
      b: "calls w' = calls example_superpixels @ [batch]" "shape batch ! 0 = nat 1"
      and d: "\<forall>segs d labels. r = Inr (segs, d, labels) \<longrightarrow> d = data"
      and p: "\<forall>i < nat 1. \<forall>c r k.
                   elem batch [i, c, r, k] =
                     elem (masked_assign (length (shape (segments example_sampler)))
                             (segment_mask (segments example_sampler) (zero_features (data ! i)))
                             (tensors example_superpixels (sp_image example_sampler))
                             (tensors example_superpixels (image_ref example_sampler)))
                          [r, k, c]"
      by auto
    from d r have "data = [[0]]" by simp
    with p px have "elem batch [0, 0, 0, 0] = 9" by simp
    with e s r b show ?thesis by auto
  qed
  have none: "(\<exists>e. snd (snd (ImageSampler_sample example_sampler [0] 0 example_superpixels)) = Inl e) \<and>
     calls (fst (ImageSampler_sample example_sampler [0] 0 example_superpixels))
       = calls example_superpixels"
  proof -
    obtain w' self' r where
      e: "ImageSampler_sample example_sampler [0] 0 example_superpixels = (w', self', r)"
      by (cases "ImageSampler_sample example_sampler [0] 0 example_superpixels")
    from sample_predict_calls [OF e]
    have "(0::int) \<le> 0 \<longrightarrow> (\<exists>e. r = Inl e) \<and> calls w' = calls example_superpixels" by blast
    with e show ?thesis by simp
  qed
  have range: "(\<exists>e. snd (snd (ImageSampler_sample example_sampler [1] 1 example_superpixels)) = Inl e) \<and>
     calls (fst (ImageSampler_sample example_sampler [1] 1 example_superpixels))
       = calls example_superpixels"
  proof -
    obtain w' self' r where
      e: "ImageSampler_sample example_sampler [1] 1 example_superpixels = (w', self', r)"
      by (cases "ImageSampler_sample example_sampler [1] 1 example_superpixels")
    have out: "\<exists>p \<in> set [1]. p < - int (n_features example_sampler) \<or>
                 int (n_features example_sampler) \<le> p"
      by (simp add: example_sampler_def)
    from sample_predict_calls [OF e]
    have "(\<exists>p \<in> set [1]. p < - int (n_features example_sampler) \<or>
                 int (n_features example_sampler) \<le> p) \<longrightarrow>
          (\<exists>e. r = Inl e) \<and> calls w' = calls example_superpixels" by blast
    with out e show ?thesis by simp
  qed
  from kept replaced none range show ?thesis by blast
qed

lemma example_sample_zero:
  assumes "ImageSampler_sample example_sampler [] 0 example_world = (w', self', r)"
  shows "r = Inl RuntimeError \<and> calls w' = calls example_world"
  using assms
  by (auto simp: ImageSampler_sample_def randint2_def set_present_def stack_def Let_def)

text \<open>
  With \<open>num_samples = 0\<close> the image sampler raises RuntimeError (\<^verbatim>\<open>torch.stack\<close> of an
  empty list) and the log of predict calls is as before; the \<^verbatim>\<open>sample\<close> of the
  tabular sampler returns \<^verbatim>\<open>None\<close> and leaves the world, and with it the log, as it
  was. Neither call invokes the predict function.
\<close>

theorem sample_predict_calls_counterexample:
  "snd (snd (ImageSampler_sample example_sampler [] 0 example_world)) = Inl RuntimeError \<and>
   calls (fst (ImageSampler_sample example_sampler [] 0 example_world)) = calls example_world \<and>
   Sampler_sample (TabularSampler :: (int, int) Sampler) [] 1 example_world
     = (example_world, TabularSampler, Inr None)"
proof -
  obtain w' self' r where e: "ImageSampler_sample example_sampler [] 0 example_world = (w', self', r)"
    by (cases "ImageSampler_sample example_sampler [] 0 example_world")
  from example_sample_zero [OF e] e show ?thesis
    by (simp add: TabularSampler_sample_def)
qed

section \<open>The constructor builds a sampler that fits its world\<close>

text \<open>
  When the segmentation has at least one segment, the loop of \<^verbatim>\<open>__init__\<close> has checked
  the shape of the segmentation against the image, and the sampler that comes out fits
  the world that comes out; the caller's input is not written.
\<close>

lemma fill_superpixel_shape:
  assumes "fill_superpixel x segs spixel sp w = (w', Inr u)"
  shows "shape (tensors w' sp) = shape (tensors w sp) \<and>
         take (length (shape segs)) (shape (tensors w sp)) = shape segs \<and>
         (\<forall>a. a \<noteq> sp \<longrightarrow> tensors w' a = tensors w a)"
  using assms
  by (auto simp: fill_superpixel_def Let_def split: if_splits)

lemma fill_superpixels_shape:
  "fill_superpixels x segs feats sp w = (w', Inr u) \<Longrightarrow>
     shape (tensors w' sp) = shape (tensors w sp) \<and>
     (feats \<noteq> [] \<longrightarrow> take (length (shape segs)) (shape (tensors w sp)) = shape segs) \<and>
     (\<forall>a. a \<noteq> sp \<longrightarrow> tensors w' a = tensors w a)"
proof (induction feats arbitrary: w)
  case Nil
  then show ?case by simp
next
  case (Cons spixel rest)
  obtain w1 r1 where f: "fill_superpixel x segs spixel sp w = (w1, r1)"
    by (cases "fill_superpixel x segs spixel sp w")
  show ?case
  proof (cases r1)
    case (Inl e)
    with Cons.prems f show ?thesis by simp
  next
    case (Inr u1)
    with Cons.prems f have "fill_superpixels x segs rest sp w1 = (w', Inr u)" by simp
    from Cons.IH [OF this] fill_superpixel_shape [OF f [unfolded Inr]] show ?thesis by simp
  qed
qed

lemma init_consistent:
  assumes init: "ImageSampler_init x input predict kwargs w = (w1, Inr self)"
    and allocated: "input < fresh w"
    and features: "0 < n_features self"
  shows "consistent self w1 \<and> length (shape (tensors w1 (image_ref self))) = 3 \<and>
         tensors w1 input = tensors w input"
proof -
  from init_returns_inv [OF init]
  obtain chw w0 w2 where
    p: "permute [2, 0, 1] (tensors w input) = Inr chw"
    and w0: "w0 = w\<lparr>calls := calls w @ [unsqueeze0 chw]\<rparr>"
    and cl: "clone input w0 = (w2, sp_image self)"
    and fs: "fill_superpixels x (quickshift x (tensors w input))
       (unique (quickshift x (tensors w input))) (sp_image self) w2 = (w1, Inr ())"
    and segs: "segments self = quickshift x (tensors w input)"
    and nf: "n_features self = length (unique (quickshift x (tensors w input)))"
    and im: "image_ref self = input"
    by blast
  note a = init_allocates [OF init]
  from cl w0 a have t2: "tensors w2 (sp_image self) = tensors w input"
    "tensors w2 input = tensors w input"
    by (auto simp: clone_def)
  from features nf have ne: "unique (quickshift x (tensors w input)) \<noteq> []" by auto
  note sh = fill_superpixels_shape [OF fs]
  from a allocated have neq: "input \<noteq> sp_image self" by simp
  from sh neq t2 have same: "tensors w1 input = tensors w input" by simp
  from sh t2 have shp: "shape (tensors w1 (sp_image self)) = shape (tensors w input)" by simp
  from sh ne t2 segs
  have fit: "take (length (shape (segments self))) (shape (tensors w input)) = shape (segments self)"
    by simp
  from permute_length [OF p] have rank: "length (shape (tensors w input)) = 3" by simp
  from a allocated im same shp fit rank show ?thesis
    by (simp add: consistent_def)
qed

section \<open>What \<^verbatim>\<open>sample\<close> returns\<close>

lemma columns_succeed:
  "\<forall>p \<in> set present. - int n \<le> p \<and> p < int n \<Longrightarrow> \<exists>cs. columns n present = Inr cs"
  by (induction present) (auto simp: column_def)

lemma argmax_rows_succeed:
  "[] \<notin> set preds \<Longrightarrow> \<exists>ms. argmax_rows preds = Inr ms"
proof (induction preds)
  case Nil
  then show ?case by simp
next
  case (Cons row rows)
  then obtain ms where "argmax_rows rows = Inr ms" by auto
  moreover from Cons.prems obtain m where "argmax row = Inr m"
    by (cases row) (auto simp: argmax_def)
  ultimately show ?case by simp
qed

lemma generate_image_succeeds:
  assumes "consistent self w"
  shows "\<exists>w'. generate_image self feature_mask w = (w', Inr (fresh w)) \<and>
           shape (tensors w' (fresh w)) = shape (tensors w (image_ref self))"
  using assms
  by (auto simp: consistent_def generate_image_def clone_def masked_assign_def Let_def)

lemma consistent_frame:
  assumes "consistent self w" and "fresh w \<le> fresh w'"
    and "\<forall>a. a < fresh w \<longrightarrow> tensors w' a = tensors w a"
  shows "consistent self w'"
  using assms by (auto simp: consistent_def)

lemma generate_images_succeed:
  "consistent self w \<Longrightarrow>
     \<exists>w' imgs. generate_images self data w = (w', Inr imgs) \<and>
       (\<forall>img \<in> set imgs. img < fresh w' \<and>
          shape (tensors w' img) = shape (tensors w (image_ref self)))"
proof (induction data arbitrary: w)
  case Nil
  then show ?case by simp
next
  case (Cons feature_mask rest)
  from generate_image_succeeds [OF Cons.prems, of feature_mask]
  obtain w1 where g: "generate_image self feature_mask w = (w1, Inr (fresh w))"
    and sh: "shape (tensors w1 (fresh w)) = shape (tensors w (image_ref self))"
    by blast
  note f1 = generate_image_frame [OF g]
  from Cons.prems have refs: "image_ref self < fresh w" by (simp add: consistent_def)
  from f1 have "fresh w \<le> fresh w1" "\<forall>a. a < fresh w \<longrightarrow> tensors w1 a = tensors w a"
    by auto
  from consistent_frame [OF Cons.prems this] have c1: "consistent self w1" .
  from Cons.IH [OF c1] obtain w2 imgs where
    gs: "generate_images self rest w1 = (w2, Inr imgs)"
    and all: "\<forall>img \<in> set imgs. img < fresh w2 \<and>
          shape (tensors w2 img) = shape (tensors w1 (image_ref self))"
    by blast
  note f2 = generate_images_frame [OF gs]
  from f1 refs have same: "tensors w1 (image_ref self) = tensors w (image_ref self)" by simp
  from f1 f2 have "fresh w < fresh w2" "tensors w2 (fresh w) = tensors w1 (fresh w)" by auto
  with sh have first: "fresh w < fresh w2 \<and>
      shape (tensors w2 (fresh w)) = shape (tensors w (image_ref self))"
    by simp
  from g gs have "generate_images self (feature_mask # rest) w = (w2, Inr (fresh w # imgs))"
    by simp
  with first all same show ?case by auto
qed

lemma stack_succeeds:
  assumes "ts \<noteq> []" and "\<forall>t \<in> set ts. shape t = s"
  shows "\<exists>samples. stack ts = Inr samples \<and> shape samples = length ts # s"
  using assms by (cases ts) (auto simp: stack_def list_ex_iff)

lemma permute_0312_succeeds:
  assumes "length (shape t) = 4"
  shows "\<exists>b. permute [0, 3, 1, 2] t = Inr b"
proof -
  have u: "[0..<4] = [0, 1, 2, 3::nat]" by (simp add: upt_rec)
  have "sort [0, 3, 1, 2::nat] = [0, 1, 2, 3]" by simp
  with assms u show ?thesis by (simp add: permute_def)
qed

lemma sample_succeeds:
  assumes pos: "0 < num_samples"
    and present: "\<forall>p \<in> set present. - int (n_features self) \<le> p \<and> p < int (n_features self)"
    and cons: "consistent self w"
    and rank: "length (shape (tensors w (image_ref self))) = 3"
    and pred: "\<forall>b. length (shape b) = 4 \<and> shape b ! 0 = nat num_samples \<longrightarrow>
                 (\<exists>preds. predict_fn self b = Inr preds \<and> [] \<notin> set preds)"
  shows "\<exists>w' data labels.
     ImageSampler_sample self present num_samples w = (w', self, Inr (segments self, data, labels))"
proof -
  obtain w0 data0 where rd: "randint2 (nat num_samples) (n_features self) w = (w0, data0)"
    by (cases "randint2 (nat num_samples) (n_features self) w")
  note rw = randint2_world [OF rd]
  from columns_succeed [OF present] obtain cs where "columns (n_features self) present = Inr cs"
    by blast
  then obtain data where sp: "set_present (n_features self) present data0 = Inr data"
    by (simp add: set_present_def)
  from randint2_data [OF rd] set_present_length [OF sp] pos
  have ld: "length data = nat num_samples" "data \<noteq> []" by auto
  from cons rw have c0: "consistent self w0" by (simp add: consistent_def)
  from generate_images_succeed [OF c0, of data] obtain w1 imgs where
    gi: "generate_images self data w0 = (w1, Inr imgs)"
    and sh: "\<forall>img \<in> set imgs. shape (tensors w1 img) = shape (tensors w0 (image_ref self))"
    by blast
  from generate_images_frame [OF gi] ld have ne: "map (tensors w1) imgs \<noteq> []" by auto
  from sh have "\<forall>t \<in> set (map (tensors w1) imgs). shape t = shape (tensors w0 (image_ref self))"
    by auto
  from stack_succeeds [OF ne this] obtain samples where
    st: "stack (map (tensors w1) imgs) = Inr samples"
    and ss: "shape samples = length (map (tensors w1) imgs) # shape (tensors w0 (image_ref self))"
    by blast
  from ss rank rw have "length (shape samples) = 4" by simp
  from permute_0312_succeeds [OF this] obtain batch where
    pm: "permute [0, 3, 1, 2] samples = Inr batch" by blast
  from permute_0312 [OF pm] have b4: "length (shape batch) = 4" by simp
  from batch_slices [OF st pm] generate_images_frame [OF gi] ld
  have b0: "shape batch ! 0 = nat num_samples" by simp
  from pred b4 b0 obtain preds where pr: "predict_fn self batch = Inr preds" and "[] \<notin> set preds"
    by blast
  from argmax_rows_succeed [OF this(2)] obtain ms where am: "argmax_rows preds = Inr ms"
    by blast
  from pos rd sp gi st pm pr am show ?thesis
    by (simp add: ImageSampler_sample_def Let_def)
qed

lemma sample_returns_props:
  assumes "ImageSampler_sample self present num_samples w = (w', self', Inr (segs, data, labels))"
  shows "segs = segments self \<and> 0 < num_samples \<and> length data = nat num_samples \<and>
         (\<forall>row \<in> set data. length row = n_features self \<and> set row \<subseteq> {0, 1} \<and>
            (\<forall>p \<in> set present. \<exists>c. column (n_features self) p = Inr c \<and>
               c < n_features self \<and> row ! c = 1)) \<and>
         set labels \<subseteq> {0, 1} \<and>
         (\<exists>batch preds. calls w' = calls w @ [batch] \<and> length (shape batch) = 4 \<and>
            shape batch ! 0 = nat num_samples \<and>
            predict_fn self batch = Inr preds \<and> length labels = length preds)"
proof -
  from sample_returns_inv [OF assms]
  obtain w0 data0 data' w1 imgs samples batch preds preds_max where
    rd: "randint2 (nat num_samples) (n_features self) w = (w0, data0)"
    and sp: "set_present (n_features self) present data0 = Inr data'"
    and gi: "generate_images self data' w0 = (w1, Inr imgs)"
    and st: "stack (map (tensors w1) imgs) = Inr samples"
    and pm: "permute [0, 3, 1, 2] samples = Inr batch"
    and w': "w' = w1\<lparr>calls := calls w1 @ [batch]\<rparr>"
    and pr: "predict_fn self batch = Inr preds"
    and am: "argmax_rows preds = Inr preds_max"
    and res: "(segs, data, labels) =
       (segments self, data', map (\<lambda>m. if m = label self then 1 else 0) preds_max)"
    by blast
  from res have segs: "segs = segments self" and data: "data = data'"
    and labels: "labels = map (\<lambda>m. if m = label self then 1 else 0) preds_max"
    by simp_all
  note rdd = randint2_data [OF rd]
  from rdd have rows0: "\<forall>row \<in> set data0. length row = n_features self \<and> set row \<subseteq> {0, 1}"
    by simp
  note sps = set_present_sound [OF sp rows0]
  from sps rdd data have ld: "length data = nat num_samples" by simp
  from generate_images_frame [OF gi] ld data have li: "length imgs = nat num_samples" by simp
  note bs = batch_slices [OF st pm]
  from bs have "0 < length imgs" by simp
  with li have pos: "0 < num_samples" by (cases "0 < num_samples") simp_all
  from bs li have sh: "shape batch ! 0 = nat num_samples" by simp
  from randint2_world [OF rd] generate_images_frame [OF gi] w'
  have c: "calls w' = calls w @ [batch]" by simp
  from labels have bin: "set labels \<subseteq> {0, 1}" by auto
  from labels argmax_rows_sound [OF am] have ll: "length labels = length preds" by simp
  from permute_0312 [OF pm] have b4: "length (shape batch) = 4" by simp
  from c b4 sh pr ll have "\<exists>batch preds. calls w' = calls w @ [batch] \<and>
      length (shape batch) = 4 \<and>
      shape batch ! 0 = nat num_samples \<and> predict_fn self batch = Inr preds \<and>
      length labels = length preds"
    by blast
  with segs pos ld sps data bin show ?thesis by simp
qed

lemma sample_succeeds_aligned:
  assumes pos: "0 < num_samples"
    and present: "\<forall>p \<in> set present. - int (n_features self) \<le> p \<and> p < int (n_features self)"
    and cons: "consistent self w"
    and rank: "length (shape (tensors w (image_ref self))) = 3"
    and pred: "\<forall>b. length (shape b) = 4 \<and> shape b ! 0 = nat num_samples \<longrightarrow>
                 (\<exists>preds. predict_fn self b = Inr preds \<and> length preds = shape b ! 0 \<and>
                    [] \<notin> set preds)"
  shows "\<exists>w' data labels.
     ImageSampler_sample self present num_samples w = (w', self, Inr (segments self, data, labels)) \<and>
     length labels = nat num_samples"
proof -
  from pred have "\<forall>b. length (shape b) = 4 \<and> shape b ! 0 = nat num_samples \<longrightarrow>
                 (\<exists>preds. predict_fn self b = Inr preds \<and> [] \<notin> set preds)" by blast
  from sample_succeeds [OF pos present cons rank this]
  obtain w' data labels where
    s: "ImageSampler_sample self present num_samples w = (w', self, Inr (segments self, data, labels))"
    by blast
  from sample_returns_props [OF s] obtain batch preds where
    b: "shape batch ! 0 = nat num_samples" "predict_fn self batch = Inr preds"
      "length labels = length preds" and b4: "length (shape batch) = 4"
    by blast
  from pred b4 b(1) obtain preds' where
    "predict_fn self batch = Inr preds'" "length preds' = shape batch ! 0" by blast
  with b(2) have "length preds = shape batch ! 0" by simp
  with b s show ?thesis by auto
qed

text \<open>
  Claim C2, as the code has it, for the image sampler. When \<^verbatim>\<open>sample\<close> returns, the
  first component is the segmentation stored in the sampler (a tensor of the height and
  width of the image, not a container of length \<open>num_samples\<close>); the mask has
  \<open>num_samples\<close> rows of \<open>n_features\<close> entries, each 0 or 1, and in every row the
  column of every present id is 1; the label-match vector holds 0s and 1s, one for each
  row of scores that the predict function gave for the batch of \<open>num_samples\<close>
  samples. And the call does return, with \<open>num_samples\<close> labels, when \<open>num_samples\<close>
  is positive, every present id is within \<open>-n_features \<le> p < n_features\<close>, the sampler
  fits its world, the image has three dimensions, and the predict function answers
  every four-dimensional batch of \<open>num_samples\<close> samples with one non-empty row of
  scores per sample.
\<close>

theorem sample_returns_aligned:
  "(\<forall>w' self' segs data labels.
      ImageSampler_sample self present num_samples w = (w', self', Inr (segs, data, labels)) \<longrightarrow>
        segs = segments self \<and> 0 < num_samples \<and> length data = nat num_samples \<and>
        (\<forall>row \<in> set data. length row = n_features self \<and> set row \<subseteq> {0, 1} \<and>
           (\<forall>p \<in> set present. \<exists>c. column (n_features self) p = Inr c \<and>
              c < n_features self \<and> row ! c = 1)) \<and>
        set labels \<subseteq> {0, 1} \<and>
        (\<exists>batch preds. calls w' = calls w @ [batch] \<and> shape batch ! 0 = nat num_samples \<and>
           predict_fn self batch = Inr preds \<and> length labels = length preds)) \<and>
   (0 < num_samples \<and>
    (\<forall>p \<in> set present. - int (n_features self) \<le> p \<and> p < int (n_features self)) \<and>
    consistent self w \<and> length (shape (tensors w (image_ref self))) = 3 \<and>
    (\<forall>b. length (shape b) = 4 \<and> shape b ! 0 = nat num_samples \<longrightarrow>
       (\<exists>preds. predict_fn self b = Inr preds \<and> length preds = shape b ! 0 \<and>
          [] \<notin> set preds)) \<longrightarrow>
      (\<exists>w' data labels.
         ImageSampler_sample self present num_samples w =
           (w', self, Inr (segments self, data, labels)) \<and>
         length labels = nat num_samples))"
  using sample_returns_props [of self present num_samples w]
    sample_succeeds_aligned [of num_samples present self w]
  by blast

lemma example_consistent:
  "consistent example_sampler example_world \<and>
   length (shape (tensors example_world (image_ref example_sampler))) = 3 \<and>
   (\<forall>p \<in> set [0]. - int (n_features example_sampler) \<le> p \<and> p < int (n_features example_sampler)) \<and>
   (\<forall>b. \<exists>preds. predict_fn example_sampler b = Inr preds \<and> length preds = shape b ! 0 \<and>
       [] \<notin> set preds)"
  by (auto simp: consistent_def example_sampler_def example_world_def example_image_def
      example_predict_def)

text \<open>
  The theorem at the concrete run: the preconditions hold there, and the call returns.
\<close>

theorem sample_returns_aligned_witness:
  "consistent example_sampler example_world \<and>
   (\<exists>w' batch.
      ImageSampler_sample example_sampler [0] 2 example_world =
        (w', example_sampler, Inr (segments example_sampler, [[1], [1]], [1, 1])) \<and>
      calls w' = calls example_world @ [batch] \<and> shape batch ! 0 = 2) \<and>
   column (n_features example_sampler) 0 = Inr 0"
proof -
  note c = example_consistent
  have pos: "0 < (2::int)" by simp
  note t = sample_returns_aligned [of example_sampler "[0]" 2 example_world]
  from t c pos obtain w' data labels where
    s: "ImageSampler_sample example_sampler [0] 2 example_world =
           (w', example_sampler, Inr (segments example_sampler, data, labels))"
    by blast
  from example_sample [OF s] have dl: "data = [[1], [1]]" "labels = [1, 1]" by simp_all
  from t s obtain batch where
    b: "calls w' = calls example_world @ [batch]" "shape batch ! 0 = nat 2"
    by blast
  have col: "column (n_features example_sampler) 0 = Inr 0"
    by (simp add: column_def example_sampler_def)
  from s dl b have "\<exists>w' batch.
      ImageSampler_sample example_sampler [0] 2 example_world =
        (w', example_sampler, Inr (segments example_sampler, [[1], [1]], [1, 1])) \<and>
      calls w' = calls example_world @ [batch] \<and> shape batch ! 0 = 2"
    by auto
  with c col show ?thesis by blast
qed

text \<open>
  The \<^verbatim>\<open>sample\<close> of the tabular and of the text sampler returns \<^verbatim>\<open>None\<close>; the first
  component that the image sampler returns for two samples is the 1 x 1 segmentation;
  and for \<open>num_samples = 0\<close> the image sampler raises RuntimeError.
\<close>

theorem sample_returns_aligned_counterexample:
  "Sampler_sample (TabularSampler :: (int, int) Sampler) [0] 2 example_world
     = (example_world, TabularSampler, Inr None) \<and>
   Sampler_sample (TextSampler :: (int, int) Sampler) [0] 2 example_world
     = (example_world, TextSampler, Inr None) \<and>
   snd (snd (ImageSampler_sample example_sampler [0] 2 example_world))
     = Inr (segments example_sampler, [[1], [1]], [1, 1]) \<and>
   shape (segments example_sampler) = [1, 1] \<and>
   snd (snd (ImageSampler_sample example_sampler [] 0 example_world)) = Inl RuntimeError"
proof -
  obtain w' self' r where e: "ImageSampler_sample example_sampler [0] 2 example_world = (w', self', r)"
    by (cases "ImageSampler_sample example_sampler [0] 2 example_world")
  obtain w2 self2 r2 where z: "ImageSampler_sample example_sampler [] 0 example_world = (w2, self2, r2)"
    by (cases "ImageSampler_sample example_sampler [] 0 example_world")
  from example_sample [OF e] e example_sample_zero [OF z] z show ?thesis
    by (simp add: TabularSampler_sample_def TextSampler_sample_def example_sampler_def)
qed

end
